theory Spec2Isabelle
  imports Complex_Main "HOL-Library.Word" "HOL-Library.Multiset"
begin

section \<open>JavaScript values used by server.js\<close>

text \<open>
  A JavaScript string is a sequence of UTF-16 code units; \<open>length\<close>, \<open>slice\<close> and \<open>trim\<close>
  all count code units. \<open>js\<close> injects an ASCII literal of the source.
\<close>

type_synonym jsstring = "16 word list"

definition js :: "string \<Rightarrow> jsstring" where
  "js s = map (\<lambda>c. of_nat (of_char c)) s"

text \<open>
  \<open>String.prototype.slice(start, end)\<close> and \<open>Array.prototype.slice(start, end)\<close> on integer
  arguments: a negative index counts from the end, and both indices are clamped to
  \<open>[0, length]\<close>. \<open>slice_from\<close> is the one-argument call, whose end is the length.
\<close>

definition slice :: "'a list \<Rightarrow> int \<Rightarrow> int \<Rightarrow> 'a list" where
  "slice xs start fin =
     (let len = int (length xs);
          lo = (if start < 0 then max (len + start) 0 else min start len);
          hi = (if fin < 0 then max (len + fin) 0 else min fin len)
      in take (nat (hi - lo)) (drop (nat lo) xs))"

definition slice_from :: "'a list \<Rightarrow> int \<Rightarrow> 'a list" where
  "slice_from xs start = slice xs start (int (length xs))"

text \<open>\<open>Array.prototype.join(sep)\<close> on an array of strings.\<close>

fun join :: "jsstring \<Rightarrow> jsstring list \<Rightarrow> jsstring" where
  "join sep [] = []"
| "join sep [x] = x"
| "join sep (x # y # ys) = x @ sep @ join sep (y # ys)"

text \<open>
  \<open>Number.prototype.toString()\<close> on a non-negative integer, which is what \<open>Date.now()\<close>
  returns: the decimal digits, most significant first.
\<close>

fun toString :: "nat \<Rightarrow> jsstring" where
  "toString n =
     (if n < 10 then [of_nat (48 + n)]
      else toString (n div 10) @ [of_nat (48 + n mod 10)])"

declare toString.simps [simp del]

text \<open>
  \<open>String.prototype.trim()\<close> removes the code units of ECMAScript's WhiteSpace and
  LineTerminator productions from both ends.
\<close>

definition isWhiteSpace :: "16 word \<Rightarrow> bool" where
  "isWhiteSpace c =
     (c = 0x9 \<or> c = 0xA \<or> c = 0xB \<or> c = 0xC \<or> c = 0xD \<or> c = 0x20 \<or> c = 0xA0
      \<or> c = 0x1680 \<or> (0x2000 \<le> c \<and> c \<le> 0x200A) \<or> c = 0x2028 \<or> c = 0x2029
      \<or> c = 0x202F \<or> c = 0x205F \<or> c = 0x3000 \<or> c = 0xFEFF)"

definition trim :: "jsstring \<Rightarrow> jsstring" where
  "trim s = rev (dropWhile isWhiteSpace (rev (dropWhile isWhiteSpace s)))"

text \<open>
  The values an external capability hands back are JSON data. \<open>Fn\<close> stands for a function
  value, which a property read can reach through a prototype. A \<open>Number\<close> carries the real
  value of a finite double.
\<close>

datatype jsval =
    Undefined
  | Null
  | Boolean bool
  | Number real
  | Str jsstring
  | Arr "jsval list"
  | Obj "(jsstring \<times> jsval) list"
  | Fn jsstring

fun truthy :: "jsval \<Rightarrow> bool" where
  "truthy Undefined = False"
| "truthy Null = False"
| "truthy (Boolean b) = b"
| "truthy (Number x) = (x \<noteq> 0)"
| "truthy (Str s) = (s \<noteq> [])"
| "truthy (Arr xs) = True"
| "truthy (Obj fs) = True"
| "truthy (Fn f) = True"

text \<open>
  One step \<open>v?.k\<close> of an optional chain. The source reads the keys \<open>embedding\<close>, \<open>values\<close>,
  \<open>data\<close>, \<open>embeddings\<close> and the index \<open>0\<close>; of these only \<open>values\<close> is found on a prototype
  (\<open>Array.prototype.values\<close>), and only arrays and strings have an index \<open>0\<close> of their own.
\<close>

fun get_opt :: "jsval \<Rightarrow> jsstring \<Rightarrow> jsval" where
  "get_opt Undefined k = Undefined"
| "get_opt Null k = Undefined"
| "get_opt (Obj fs) k = (case map_of fs k of Some v \<Rightarrow> v | None \<Rightarrow> Undefined)"
| "get_opt (Arr xs) k =
     (if k = js ''0'' then (case xs of [] \<Rightarrow> Undefined | x # _ \<Rightarrow> x)
      else if k = js ''values'' then Fn (js ''values'')
      else Undefined)"
| "get_opt (Str s) k =
     (if k = js ''0'' then (case s of [] \<Rightarrow> Undefined | c # _ \<Rightarrow> Str [c])
      else Undefined)"
| "get_opt (Boolean b) k = Undefined"
| "get_opt (Number x) k = Undefined"
| "get_opt (Fn f) k = Undefined"

text \<open>
  What a \<open>throw\<close> carries: \<open>Error m\<close> is \<open>new Error(m)\<close> of the source, \<open>TypeError\<close> is raised
  by the engine (a property read on \<open>undefined\<close>, a call of a non-function), and
  \<open>Rejected m\<close> is the failure of an external capability (network, authentication,
  file system), with the text \<open>String(err)\<close> shows.
\<close>

datatype exn = Error jsstring | TypeError | Rejected jsstring

section \<open>Chunker\<close>

text \<open>
  \<open>chunkText\<close> (server.js 79-87). The \<open>while\<close> loop is not bounded by its syntax, so it
  is a partial function: \<open>None\<close> is the loop that never ends.
\<close>

partial_function (option) chunk_loop ::
  "'a list \<Rightarrow> int \<Rightarrow> int \<Rightarrow> int \<Rightarrow> 'a list list \<Rightarrow> 'a list list option" where
  "chunk_loop text chunkSize overlap i chunks =
     (if i < int (length text)
      then chunk_loop text chunkSize overlap (i + (chunkSize - overlap))
             (chunks @ [slice text i (i + chunkSize)])
      else Some chunks)"

definition chunkText :: "'a list \<Rightarrow> int \<Rightarrow> int \<Rightarrow> 'a list list option" where
  "chunkText text chunkSize overlap = chunk_loop text chunkSize overlap 0 []"

text \<open>The window the spec describes: \<open>T[k * step .. k * step + size)\<close>.\<close>

definition window :: "'a list \<Rightarrow> nat \<Rightarrow> nat \<Rightarrow> nat \<Rightarrow> 'a list" where
  "window T sz step k = take sz (drop (k * step) T)"

section \<open>Embedding gateway\<close>

text \<open>
  \<open>embedText\<close> (server.js 90-100). \<open>embedContent\<close> is the external call, which either
  rejects or resolves to a response; \<open>stringify\<close> is \<open>JSON.stringify\<close>, which returns
  \<open>undefined\<close> (so that \<open>.slice\<close> raises) on \<open>undefined\<close> and on a function.
\<close>

definition embedding_values :: "jsval \<Rightarrow> jsval" where
  "embedding_values response = get_opt (get_opt response (js ''embedding'')) (js ''values'')"

definition data_0_embedding :: "jsval \<Rightarrow> jsval" where
  "data_0_embedding response =
     get_opt (get_opt (get_opt response (js ''data'')) (js ''0'')) (js ''embedding'')"

definition embeddings_0_values :: "jsval \<Rightarrow> jsval" where
  "embeddings_0_values response =
     get_opt (get_opt (get_opt response (js ''embeddings'')) (js ''0'')) (js ''values'')"

definition embedText ::
  "(jsval \<Rightarrow> jsstring) \<Rightarrow> (jsstring \<Rightarrow> exn + jsval) \<Rightarrow> jsstring \<Rightarrow> exn + jsval" where
  "embedText stringify embedContent text =
     (case embedContent text of
        Inl e \<Rightarrow> Inl e
      | Inr response \<Rightarrow>
          if truthy (embedding_values response) then Inr (embedding_values response)
          else if truthy (data_0_embedding response) then Inr (data_0_embedding response)
          else if truthy (embeddings_0_values response)
            then Inr (embeddings_0_values response)
          else (case response of
                  Undefined \<Rightarrow> Inl TypeError
                | Fn f \<Rightarrow> Inl TypeError
                | _ \<Rightarrow> Inl (Error (js ''Unexpected embedding response shape: ''
                                    @ slice (stringify response) 0 200))))"

text \<open>A flat numeric vector, the shape the spec expects of an embedding.\<close>

fun is_number :: "jsval \<Rightarrow> bool" where
  "is_number (Number x) = True"
| "is_number v = False"

fun is_vector :: "jsval \<Rightarrow> bool" where
  "is_vector (Arr xs) = list_all is_number xs"
| "is_vector v = False"

section \<open>Similarity ranker\<close>

text \<open>
  A JavaScript number as the ranking reads it: the value of a finite double, an infinity,
  or NaN.
\<close>

datatype jsnum = Num real | PosInf | NegInf | NaN

text \<open>
  \<open>x - y\<close>. The difference of two finite doubles is rounded, and may overflow, but keeps
  the sign of the exact difference and is zero only for equal operands; \<open>Num (x - y)\<close>
  stands for a double of that sign, which is all the sort reads.
\<close>

fun js_minus :: "jsnum \<Rightarrow> jsnum \<Rightarrow> jsnum" where
  "js_minus (Num x) (Num y) = Num (x - y)"
| "js_minus (Num x) PosInf = NegInf"
| "js_minus (Num x) NegInf = PosInf"
| "js_minus (Num x) NaN = NaN"
| "js_minus PosInf (Num y) = PosInf"
| "js_minus PosInf PosInf = NaN"
| "js_minus PosInf NegInf = PosInf"
| "js_minus PosInf NaN = NaN"
| "js_minus NegInf (Num y) = NegInf"
| "js_minus NegInf PosInf = NegInf"
| "js_minus NegInf NegInf = NaN"
| "js_minus NegInf NaN = NaN"
| "js_minus NaN y = NaN"

text \<open>\<open>v > 0\<close> and \<open>x >= y\<close>: both are false when an operand is NaN.\<close>

fun positive :: "jsnum \<Rightarrow> bool" where
  "positive (Num x) = (0 < x)"
| "positive PosInf = True"
| "positive NegInf = False"
| "positive NaN = False"

fun js_ge :: "jsnum \<Rightarrow> jsnum \<Rightarrow> bool" where
  "js_ge (Num x) (Num y) = (y \<le> x)"
| "js_ge (Num x) PosInf = False"
| "js_ge (Num x) NegInf = True"
| "js_ge (Num x) NaN = False"
| "js_ge PosInf (Num y) = True"
| "js_ge PosInf PosInf = True"
| "js_ge PosInf NegInf = True"
| "js_ge PosInf NaN = False"
| "js_ge NegInf (Num y) = False"
| "js_ge NegInf PosInf = False"
| "js_ge NegInf NegInf = True"
| "js_ge NegInf NaN = False"
| "js_ge NaN y = False"

text \<open>
  \<open>Array.prototype.sort(comparefn)\<close>. The sort reads a result of the comparator as
  ``\<open>x\<close> after \<open>y\<close>'' when it is greater than zero, and takes NaN for zero. It is stable
  (ECMAScript 2019), so with a consistent comparator its result is the one a stable
  insertion sort gives; with a comparator that is not consistent the order is left to
  the implementation, of which this insertion sort is one. \<open>insert_by\<close> puts an element
  in front of the first one it does not have to follow.
\<close>

fun insert_by :: "('a \<Rightarrow> 'a \<Rightarrow> jsnum) \<Rightarrow> 'a \<Rightarrow> 'a list \<Rightarrow> 'a list" where
  "insert_by cmp x [] = [x]"
| "insert_by cmp x (y # ys) =
     (if positive (cmp x y) then y # insert_by cmp x ys else x # y # ys)"

definition sort_by :: "('a \<Rightarrow> 'a \<Rightarrow> jsnum) \<Rightarrow> 'a list \<Rightarrow> 'a list" where
  "sort_by cmp xs = foldr (insert_by cmp) xs []"

text \<open>
  A scored chunk of the ask handler (server.js 188-191), and the sort of line 192 with
  its comparator \<open>(a, b) => b.score - a.score\<close>.
\<close>

record scored =
  scored_text :: jsstring
  score :: jsnum

definition rank :: "scored list \<Rightarrow> scored list" where
  "rank xs = sort_by (\<lambda>a b. js_minus (score b) (score a)) xs"

text \<open>The order the specification asks of a ranking: each score \<open>>=\<close> the next.\<close>

definition descending :: "scored list \<Rightarrow> bool" where
  "descending ys = (\<forall>i. Suc i < length ys \<longrightarrow> js_ge (score (ys ! i)) (score (ys ! Suc i)))"

section \<open>Document store\<close>

text \<open>
  The records of \<open>documents\<close> (server.js 27, 142-147, 233). The fields of a history entry
  are \<open>q\<close>, \<open>a\<close> and \<open>createdAt\<close> in the source.
\<close>

record chunk =
  chunk_text :: jsstring
  embedding :: jsval

record entry =
  entry_q :: jsstring
  entry_a :: jsstring
  entry_createdAt :: nat

record document =
  filename :: jsstring
  chunks :: "chunk list"
  history :: "entry list"
  createdAt :: nat

type_synonym store = "jsstring \<rightharpoonup> document"

text \<open>
  \<open>JSON.stringify\<close> on a value: \<open>None\<close> is the result \<open>undefined\<close>, which it gives for
  \<open>undefined\<close> and for a function. Inside an array such an element is written as \<open>null\<close>;
  inside an object the property is left out. \<open>Some v\<close> is the value that \<open>JSON.parse\<close>
  reads back from the text.
\<close>

fun to_json :: "jsval \<Rightarrow> jsval option"
  and json_elements :: "jsval list \<Rightarrow> jsval list"
  and json_properties :: "(jsstring \<times> jsval) list \<Rightarrow> (jsstring \<times> jsval) list" where
  "to_json Undefined = None"
| "to_json (Fn f) = None"
| "to_json Null = Some Null"
| "to_json (Boolean b) = Some (Boolean b)"
| "to_json (Number x) = Some (Number x)"
| "to_json (Str s) = Some (Str s)"
| "to_json (Arr xs) = Some (Arr (json_elements xs))"
| "to_json (Obj fs) = Some (Obj (json_properties fs))"
| "json_elements [] = []"
| "json_elements (x # xs) =
     (case to_json x of None \<Rightarrow> Null | Some j \<Rightarrow> j) # json_elements xs"
| "json_properties [] = []"
| "json_properties ((k, v) # fs) =
     (case to_json v of
        None \<Rightarrow> json_properties fs
      | Some j \<Rightarrow> (k, j) # json_properties fs)"

text \<open>
  What \<open>JSON.stringify(documents, null, 2)\<close> keeps of the store (server.js 39), as
  \<open>JSON.parse\<close> reads it back: strings and the timestamps are kept as they are, and a
  chunk whose embedding is not written reads \<open>undefined\<close> for it.
\<close>

definition stored_chunk :: "chunk \<Rightarrow> chunk" where
  "stored_chunk c =
     c\<lparr>embedding := (case to_json (embedding c) of None \<Rightarrow> Undefined | Some j \<Rightarrow> j)\<rparr>"

definition stored_document :: "document \<Rightarrow> document" where
  "stored_document d = d\<lparr>chunks := map stored_chunk (chunks d)\<rparr>"

definition serialised :: "store \<Rightarrow> store" where
  "serialised docs = (\<lambda>docId. map_option stored_document (docs docId))"

text \<open>JSON data: a value that \<open>JSON.stringify\<close> and \<open>JSON.parse\<close> give back as it is.\<close>

definition is_json :: "jsval \<Rightarrow> bool" where
  "is_json v = (to_json v = Some v)"

text \<open>
  What storage.json holds: nothing yet, the mapping that \<open>JSON.parse\<close> reads from it, or
  the remains of a write that failed part-way (from which no mapping is read).
\<close>

datatype durable = Missing | Stored store | Torn

record state =
  documents :: store
  disk :: durable

text \<open>
  \<open>fs.writeFileSync\<close> either writes the whole file, or throws: before it has touched the
  file (the open failed) or after it has truncated it.
\<close>

datatype write_outcome = Written | Refused exn | Interrupted exn

text \<open>\<open>saveDocuments\<close> (server.js 38-40): the exception, if any, and the state it leaves.\<close>

definition saveDocuments :: "write_outcome \<Rightarrow> state \<Rightarrow> exn option \<times> state" where
  "saveDocuments w st =
     (case w of
        Written \<Rightarrow> (None, st\<lparr>disk := Stored (serialised (documents st))\<rparr>)
      | Refused e \<Rightarrow> (Some e, st)
      | Interrupted e \<Rightarrow> (Some e, st\<lparr>disk := Torn\<rparr>))"

text \<open>
  \<open>documents\<close> is a plain object, so \<open>documents[docId]\<close> also finds the properties of
  \<open>Object.prototype\<close>, none of which is a document.
\<close>

definition Object_prototype :: "jsstring list" where
  "Object_prototype = map js
     [''constructor'', ''__defineGetter__'', ''__defineSetter__'', ''hasOwnProperty'',
      ''__lookupGetter__'', ''__lookupSetter__'', ''isPrototypeOf'',
      ''propertyIsEnumerable'', ''toString'', ''valueOf'', ''__proto__'',
      ''toLocaleString'']"

datatype lookup = Own document | Inherited | NoProperty

definition lookup_doc :: "store \<Rightarrow> jsstring \<Rightarrow> lookup" where
  "lookup_doc docs docId =
     (case docs docId of
        Some d \<Rightarrow> Own d
      | None \<Rightarrow> if docId \<in> set Object_prototype then Inherited else NoProperty)"

section \<open>The world of one request\<close>

text \<open>
  What the handlers get from outside the process while they serve one request:
  the extractors and the file system, the embedding call (\<open>embedContent n\<close> is the
  \<open>n\<close>-th call of the request), \<open>JSON.stringify\<close>, \<open>cosineSimilarity\<close>, the generation
  call, the clock (\<open>clock n\<close> is the \<open>n\<close>-th \<open>Date.now()\<close> of the request) and the outcome
  of writing storage.json.

  \<open>cosineSimilarity\<close> (server.js 102-108) computes in IEEE-754 doubles; the handlers are
  modelled for every scoring function: one that raises, or returns any number, NaN
  included (which the source returns for a stored vector shorter than the query vector,
  whose missing components read \<open>undefined\<close>).
  \<open>generate\<close> is \<open>generateContent\<close> followed by the normalisation of its result to
  \<open>rawAnswer\<close> (server.js 217-230).
\<close>

record world =
  extractPdf :: "exn + jsstring"
  extractDocx :: "exn + jsstring"
  readFileSync :: "exn + jsstring"
  unlinkSync :: "exn option"
  embedContent :: "nat \<Rightarrow> jsstring \<Rightarrow> exn + jsval"
  stringify :: "jsval \<Rightarrow> jsstring"
  cosineSimilarity :: "jsval \<Rightarrow> jsval \<Rightarrow> exn + jsnum"
  generate :: "jsstring \<Rightarrow> exn + jsstring"
  clock :: "nat \<Rightarrow> nat"
  writeFileSync :: write_outcome

text \<open>The responses of the two handlers: the status and the JSON body.\<close>

datatype body =
    UploadOk jsstring jsstring nat
  | AskOk jsstring "entry list"
  | Failure jsstring "exn option"

datatype response = Response nat body

fun succeeded :: "response \<Rightarrow> bool" where
  "succeeded (Response status (UploadOk docId name n)) = True"
| "succeeded (Response status (AskOk answer hist)) = True"
| "succeeded (Response status (Failure msg detail)) = False"

section \<open>Upload\<close>

text \<open>
  The uploaded file as multer hands it over; \<open>ext\<close> is
  \<open>path.extname(originalname).toLowerCase()\<close>.
\<close>

record upfile =
  originalname :: jsstring
  ext :: jsstring

text \<open>The embedding loop (server.js 133-139): one call after the other, in chunk order.\<close>

fun embed_chunks :: "world \<Rightarrow> nat \<Rightarrow> jsstring list \<Rightarrow> chunk list \<Rightarrow> exn + chunk list" where
  "embed_chunks w n [] embeddedChunks = Inr embeddedChunks"
| "embed_chunks w n (c # cs) embeddedChunks =
     (case embedText (stringify w) (embedContent w n) c of
        Inl e \<Rightarrow> Inl e
      | Inr vec \<Rightarrow>
          embed_chunks w (Suc n) cs
            (embeddedChunks @ [\<lparr>chunk_text = c, embedding = vec\<rparr>]))"

definition upload_failed :: "exn \<Rightarrow> response" where
  "upload_failed e = Response 500 (Failure (js ''Upload failed'') (Some e))"

text \<open>Lines 132-155: chunk, embed, store, persist, answer.\<close>

definition upload_text :: "world \<Rightarrow> upfile \<Rightarrow> jsstring \<Rightarrow> state \<Rightarrow> (response \<times> state) option" where
  "upload_text w f text st =
     (case chunkText text 800 200 of
        None \<Rightarrow> None
      | Some rawChunks \<Rightarrow>
          (case embed_chunks w 0 rawChunks [] of
             Inl e \<Rightarrow> Some (upload_failed e, st)
           | Inr embeddedChunks \<Rightarrow>
               let docId = toString (clock w 0);
                   st1 = st\<lparr>documents := (documents st)(docId \<mapsto>
                           \<lparr>filename = originalname f, chunks = embeddedChunks,
                            history = [], createdAt = clock w 1\<rparr>)\<rparr>
               in (case saveDocuments (writeFileSync w) st1 of
                     (Some e, st2) \<Rightarrow> Some (upload_failed e, st2)
                   | (None, st2) \<Rightarrow>
                       Some (Response 200
                               (UploadOk docId (originalname f) (length embeddedChunks)),
                             st2))))"

text \<open>
  The extractor the handler picks by the extension (server.js 121-127); \<open>None\<close> is an
  unsupported file type.
\<close>

definition extract_text :: "world \<Rightarrow> upfile \<Rightarrow> (exn + jsstring) option" where
  "extract_text w f =
     (if ext f = js ''.pdf'' then Some (extractPdf w)
      else if ext f = js ''.docx'' \<or> ext f = js ''.doc'' then Some (extractDocx w)
      else if ext f = js ''.txt'' then Some (readFileSync w)
      else None)"

text \<open>
  The handler of \<open>POST /upload\<close> (server.js 113-160). \<open>None\<close> is a request that is never
  answered. A failure to remove the uploaded file is ignored once the text is extracted
  (line 130), and is an error of the request for an unsupported type (line 125).
\<close>

definition upload :: "world \<Rightarrow> upfile option \<Rightarrow> state \<Rightarrow> (response \<times> state) option" where
  "upload w file st =
     (case file of
        None \<Rightarrow> Some (Response 400 (Failure (js ''No file uploaded'') None), st)
      | Some f \<Rightarrow>
          (case extract_text w f of
             None \<Rightarrow>
               (case unlinkSync w of
                  Some e \<Rightarrow> Some (upload_failed e, st)
                | None \<Rightarrow>
                    Some (Response 400 (Failure (js ''Unsupported file type'') None), st))
           | Some (Inl e) \<Rightarrow> Some (upload_failed e, st)
           | Some (Inr text) \<Rightarrow> upload_text w f text st))"

section \<open>Ask\<close>

text \<open>The history section of the prompt (server.js 199, 208).\<close>

definition render_entry :: "entry \<Rightarrow> jsstring" where
  "render_entry h = js ''Q: '' @ entry_q h @ js ''\<newline>A: '' @ entry_a h"

definition recentHistory :: "entry list \<Rightarrow> jsstring" where
  "recentHistory hist =
     join (js ''\<newline>\<newline>'') (map render_entry (slice_from hist (- 6)))"

definition history_section :: "entry list \<Rightarrow> jsstring" where
  "history_section hist =
     (if recentHistory hist \<noteq> [] then recentHistory hist else js ''None'')"

text \<open>The excerpts of the prompt (server.js 195-196).\<close>

definition TOP_K :: int where
  "TOP_K = 4"

definition topChunks :: "scored list \<Rightarrow> jsstring" where
  "topChunks ranked =
     join (js ''\<newline>\<newline>---\<newline>\<newline>'')
       (map scored_text (slice ranked 0 TOP_K))"

text \<open>The prompt (server.js 201-214).\<close>

definition prompt :: "jsstring \<Rightarrow> jsstring \<Rightarrow> jsstring \<Rightarrow> jsstring" where
  "prompt excerpts hist_section question =
     js ''\<newline>You are a helpful assistant. Answer the user's question using ONLY the provided document content and any previous short Q&A history. If the answer isn't in the document, say you don't know and suggest where to look.\<newline>\<newline>Document excerpts (most relevant first):\<newline>''
     @ excerpts
     @ js ''\<newline>\<newline>Previous short Q&A history (if any):\<newline>''
     @ hist_section
     @ js ''\<newline>\<newline>User question:\<newline>''
     @ question
     @ js ''\<newline>\<newline>Answer concisely and clearly. If you cite parts of the document, indicate short quotes or paraphrases and include no invented facts.\<newline>''"

text \<open>The scores (server.js 188-191): the first call that raises ends the map.\<close>

fun score_chunks :: "world \<Rightarrow> jsval \<Rightarrow> chunk list \<Rightarrow> exn + scored list" where
  "score_chunks w qVec [] = Inr []"
| "score_chunks w qVec (c # cs) =
     (case cosineSimilarity w qVec (embedding c) of
        Inl e \<Rightarrow> Inl e
      | Inr s \<Rightarrow>
          (case score_chunks w qVec cs of
             Inl e \<Rightarrow> Inl e
           | Inr rest \<Rightarrow> Inr (\<lparr>scored_text = chunk_text c, score = s\<rparr> # rest)))"

definition ask_failed :: "exn \<Rightarrow> response" where
  "ask_failed e = Response 500 (Failure (js ''Q&A failed'') (Some e))"

text \<open>
  The handler of \<open>POST /ask\<close> (server.js 175-242), for a request body whose \<open>question\<close> and
  \<open>docId\<close> are strings; a missing field reads as the empty string, which is falsy too.
\<close>

definition ask :: "world \<Rightarrow> jsstring \<Rightarrow> jsstring \<Rightarrow> state \<Rightarrow> response \<times> state" where
  "ask w question docId st =
     (if question = [] \<or> trim question = []
      then (Response 400 (Failure (js ''No question provided'') None), st)
      else if docId = [] \<or> lookup_doc (documents st) docId = NoProperty
      then (Response 400 (Failure (js ''Invalid or missing docId'') None), st)
      else
        (case embedText (stringify w) (embedContent w 0) question of
           Inl e \<Rightarrow> (ask_failed e, st)
         | Inr qVec \<Rightarrow>
             (case lookup_doc (documents st) docId of
                NoProperty \<Rightarrow> (ask_failed TypeError, st)
              | Inherited \<Rightarrow> (ask_failed TypeError, st)
              | Own doc \<Rightarrow>
                  (case score_chunks w qVec (chunks doc) of
                     Inl e \<Rightarrow> (ask_failed e, st)
                   | Inr scored \<Rightarrow>
                       (case generate w
                               (prompt (topChunks (rank scored))
                                  (history_section (history doc)) question) of
                          Inl e \<Rightarrow> (ask_failed e, st)
                        | Inr rawAnswer \<Rightarrow>
                            let entry = \<lparr>entry_q = question, entry_a = rawAnswer,
                                         entry_createdAt = clock w 0\<rparr>;
                                doc1 = doc\<lparr>history := history doc @ [entry]\<rparr>;
                                st1 = st\<lparr>documents := (documents st)(docId \<mapsto> doc1)\<rparr>
                            in (case saveDocuments (writeFileSync w) st1 of
                                  (Some e, st2) \<Rightarrow> (ask_failed e, st2)
                                | (None, st2) \<Rightarrow>
                                    (Response 200 (AskOk rawAnswer (history doc1)),
                                     st2)))))))"

section \<open>What the specification says of the chunk count\<close>

text \<open>
  The count of chunks as the specification words it: \<open>ceil(max(len(T) - overlap, 0) /
  (size - overlap))\<close>, or 1 for a non-empty text shorter than \<open>size\<close>, and 0 for the
  empty text.
\<close>

definition claimed_chunk_count :: "nat \<Rightarrow> int \<Rightarrow> int \<Rightarrow> int" where
  "claimed_chunk_count len sz ov =
     (if len = 0 then 0
      else if int len < sz then 1
      else \<lceil>real_of_int (max (int len - ov) 0) / real_of_int (sz - ov)\<rceil>)"

section \<open>Concrete requests\<close>

text \<open>Responses of the embedding capability.\<close>

definition ok_response :: jsval where
  "ok_response = Obj [(js ''embedding'', Obj [(js ''values'', Arr [Number 1])])]"

definition results_response :: jsval where
  "results_response = Obj [(js ''data'', Arr [Obj [(js ''embedding'', Arr [Number 1, Number 2])]])]"

definition junk_response :: jsval where
  "junk_response = Obj [(js ''embedding'', Obj [(js ''values'', Str (js ''n/a''))])]"

definition shadowed_response :: jsval where
  "shadowed_response =
     Obj [(js ''embedding'', Obj [(js ''values'', Str (js ''n/a''))]),
          (js ''data'', Arr [Obj [(js ''embedding'', Arr [Number 1, Number 2])]])]"

text \<open>A \<open>JSON.stringify\<close> whose output is 300 characters long for every value.\<close>

definition dump :: "jsval \<Rightarrow> jsstring" where
  "dump v = replicate 300 0x7B"

text \<open>Four scored chunks with two ties.\<close>

definition tied_scores :: "scored list" where
  "tied_scores =
     [\<lparr>scored_text = js ''a'', score = Num (1/2)\<rparr>,
      \<lparr>scored_text = js ''b'', score = Num (3/4)\<rparr>,
      \<lparr>scored_text = js ''c'', score = Num (1/2)\<rparr>,
      \<lparr>scored_text = js ''d'', score = Num (3/4)\<rparr>]"

text \<open>
  Three scored chunks, the second with the score NaN: the scores of a query vector
  \<open>[1, 0]\<close> against a stored vector \<open>[1]\<close> in second place.
\<close>

definition nan_scores :: "scored list" where
  "nan_scores =
     [\<lparr>scored_text = js ''a'', score = Num (3/5)\<rparr>,
      \<lparr>scored_text = js ''b'', score = NaN\<rparr>,
      \<lparr>scored_text = js ''c'', score = Num (4/5)\<rparr>]"

text \<open>
  A world in which every call succeeds, the clock stands at 5 and an uploaded text file
  reads \<open>AAAABBBB\<close>; the same world with an embedding call that rejects; and the same
  world with a storage file that cannot be opened for writing.
\<close>

definition demo_world :: world where
  "demo_world =
     \<lparr>extractPdf = Inl (Rejected (js ''not a pdf'')),
      extractDocx = Inl (Rejected (js ''not a docx'')),
      readFileSync = Inr (js ''AAAABBBB''),
      unlinkSync = None,
      embedContent = (\<lambda>n t. Inr ok_response),
      stringify = (\<lambda>v. []),
      cosineSimilarity = (\<lambda>u v. Inr (Num 1)),
      generate = (\<lambda>p. Inr (js ''yes'')),
      clock = (\<lambda>n. 5),
      writeFileSync = Written\<rparr>"

definition failing_world :: world where
  "failing_world = demo_world\<lparr>embedContent := (\<lambda>n t. Inl (Rejected (js ''quota'')))\<rparr>"

definition readonly_world :: world where
  "readonly_world = demo_world\<lparr>writeFileSync := Refused (Rejected (js ''EACCES''))\<rparr>"

text \<open>
  The same world with an embedding capability that answers \<open>{embedding: [1]}\<close>, the
  vector itself where the first shape has an object: \<open>response.embedding.values\<close> is then
  the method \<open>Array.prototype.values\<close>.
\<close>

definition method_world :: world where
  "method_world =
     demo_world\<lparr>embedContent := (\<lambda>n t. Inr (Obj [(js ''embedding'', Arr [Number 1])]))\<rparr>"

definition method_doc :: "jsval \<Rightarrow> document" where
  "method_doc v =
     \<lparr>filename = js ''a.txt'',
      chunks = [\<lparr>chunk_text = js ''AAAABBBB'', embedding = v\<rparr>],
      history = [], createdAt = 5\<rparr>"

definition method_state :: state where
  "method_state =
     \<lparr>documents = [js ''5'' \<mapsto> method_doc (Fn (js ''values''))],
      disk = Stored [js ''5'' \<mapsto> method_doc Undefined]\<rparr>"


text \<open>Two uploads, the documents they create and the states those leave.\<close>

definition file_a :: upfile where
  "file_a = \<lparr>originalname = js ''a.txt'', ext = js ''.txt''\<rparr>"

definition file_b :: upfile where
  "file_b = \<lparr>originalname = js ''b.txt'', ext = js ''.txt''\<rparr>"

definition doc_of :: "upfile \<Rightarrow> document" where
  "doc_of f =
     \<lparr>filename = originalname f,
      chunks = [\<lparr>chunk_text = js ''AAAABBBB'', embedding = Arr [Number 1]\<rparr>],
      history = [], createdAt = 5\<rparr>"

definition empty_state :: state where
  "empty_state = \<lparr>documents = Map.empty, disk = Missing\<rparr>"

definition state_of :: "upfile \<Rightarrow> state" where
  "state_of f = \<lparr>documents = [js ''5'' \<mapsto> doc_of f], disk = Stored [js ''5'' \<mapsto> doc_of f]\<rparr>"

text \<open>One question on the first document, saved and not saved.\<close>

definition demo_entry :: entry where
  "demo_entry = \<lparr>entry_q = js ''why?'', entry_a = js ''yes'', entry_createdAt = 5\<rparr>"

definition asked_doc :: document where
  "asked_doc = (doc_of file_a)\<lparr>history := [demo_entry]\<rparr>"

definition asked_state :: state where
  "asked_state = \<lparr>documents = [js ''5'' \<mapsto> asked_doc], disk = Stored [js ''5'' \<mapsto> asked_doc]\<rparr>"

definition unsaved_state :: state where
  "unsaved_state = \<lparr>documents = [js ''5'' \<mapsto> asked_doc], disk = Stored [js ''5'' \<mapsto> doc_of file_a]\<rparr>"

text \<open>The second upload on the first, with the storage file refusing the write.\<close>

definition replaced_unsaved :: state where
  "replaced_unsaved =
     \<lparr>documents = [js ''5'' \<mapsto> doc_of file_b], disk = Stored [js ''5'' \<mapsto> doc_of file_a]\<rparr>"

text \<open>A history of eight question/answer pairs.\<close>

definition eight_pairs :: "entry list" where
  "eight_pairs =
     [\<lparr>entry_q = js ''q1'', entry_a = js ''a1'', entry_createdAt = 1\<rparr>,
      \<lparr>entry_q = js ''q2'', entry_a = js ''a2'', entry_createdAt = 2\<rparr>,
      \<lparr>entry_q = js ''q3'', entry_a = js ''a3'', entry_createdAt = 3\<rparr>,
      \<lparr>entry_q = js ''q4'', entry_a = js ''a4'', entry_createdAt = 4\<rparr>,
      \<lparr>entry_q = js ''q5'', entry_a = js ''a5'', entry_createdAt = 5\<rparr>,
      \<lparr>entry_q = js ''q6'', entry_a = js ''a6'', entry_createdAt = 6\<rparr>,
      \<lparr>entry_q = js ''q7'', entry_a = js ''a7'', entry_createdAt = 7\<rparr>,
      \<lparr>entry_q = js ''q8'', entry_a = js ''a8'', entry_createdAt = 8\<rparr>]"

section \<open>Properties of the chunker\<close>

lemma chunk_loop_stuck_aux:
  assumes "chunk_loop T s ov i acc = Some y"
  shows "\<not> (s \<le> ov \<and> i < int (length T))"
proof (rule chunk_loop.raw_induct
    [where P = "\<lambda>T s ov i acc y. \<not> (s \<le> ov \<and> i < int (length T))", OF _ assms])
  fix f :: "'a list \<Rightarrow> int \<Rightarrow> int \<Rightarrow> int \<Rightarrow> 'a list list \<Rightarrow> 'a list list option"
  fix T s ov i acc y
  assume IH: "\<And>T s ov i acc y. f T s ov i acc = Some y \<Longrightarrow> \<not> (s \<le> ov \<and> i < int (length T))"
  assume body: "(if i < int (length T)
      then f T s ov (i + (s - ov)) (acc @ [slice T i (i + s)]) else Some acc) = Some y"
  show "\<not> (s \<le> ov \<and> i < int (length T))"
  proof
    assume bad: "s \<le> ov \<and> i < int (length T)"
    with body have "f T s ov (i + (s - ov)) (acc @ [slice T i (i + s)]) = Some y"
      by simp
    from IH[OF this] bad show False by simp
  qed
qed

lemma chunk_loop_stuck:
  "s \<le> ov \<Longrightarrow> i < int (length T) \<Longrightarrow> chunk_loop T s ov i acc = None"
  using chunk_loop_stuck_aux[of T s ov i acc] by (cases "chunk_loop T s ov i acc") auto

lemma map_upt_Suc_front: "map f [0..<Suc n] = f 0 # map (\<lambda>k. f (Suc k)) [0..<n]"
  by (simp only: map_upt_Suc)

lemma count_past_end:
  fixes L i st :: int
  assumes "\<not> i < L" and "0 < st"
  shows "(L - i + st - 1) div st \<le> 0"
proof -
  have "L - i + st - 1 \<le> st - 1" using assms by simp
  then have "(L - i + st - 1) div st \<le> (st - 1) div st"
    using assms(2) by (rule zdiv_mono1)
  also have "(st - 1) div st = 0" using assms(2) by simp
  finally show ?thesis .
qed

lemma count_one_step:
  fixes L i st :: int
  assumes "0 < st"
  shows "(L - i + st - 1) div st = (L - (i + st) + st - 1) div st + 1"
proof -
  have "L - i + st - 1 = (L - (i + st) + st - 1) + st" by simp
  then show ?thesis using assms by (simp only: div_add_self2)
qed

lemma chunk_loop_runs:
  assumes step: "ov < s"
  shows "chunk_loop T s ov i acc =
     Some (acc @ map (\<lambda>k. slice T (i + int k * (s - ov)) (i + int k * (s - ov) + s))
                  [0..<nat ((int (length T) - i + (s - ov) - 1) div (s - ov))])"
proof (induction "nat (int (length T) - i)" arbitrary: i acc rule: less_induct)
  case less
  let ?st = "s - ov"
  have st: "0 < ?st" using step by simp
  show ?case
  proof (cases "i < int (length T)")
    case False
    then have "(int (length T) - i + ?st - 1) div ?st \<le> 0"
      using st by (rule count_past_end)
    with False show ?thesis by (subst chunk_loop.simps) simp
  next
    case True
    let ?n = "nat ((int (length T) - i + ?st - 1) div ?st)"
    let ?n' = "nat ((int (length T) - (i + ?st) + ?st - 1) div ?st)"
    have "(int (length T) - i + ?st - 1) div ?st = (int (length T) - (i + ?st) + ?st - 1) div ?st + 1"
      using st by (rule count_one_step)
    moreover have "0 \<le> (int (length T) - (i + ?st) + ?st - 1) div ?st"
      using True st by (simp add: pos_imp_zdiv_nonneg_iff)
    ultimately have n: "?n = Suc ?n'" by simp
    have dec: "nat (int (length T) - (i + ?st)) < nat (int (length T) - i)"
      using True st by simp
    have "chunk_loop T s ov i acc = chunk_loop T s ov (i + ?st) (acc @ [slice T i (i + s)])"
      using True by (subst chunk_loop.simps) simp
    also have "\<dots> = Some ((acc @ [slice T i (i + s)]) @
        map (\<lambda>k. slice T (i + ?st + int k * ?st) (i + ?st + int k * ?st + s)) [0..<?n'])"
      by (rule less[OF dec])
    also have "\<dots> = Some (acc @ map (\<lambda>k. slice T (i + int k * ?st) (i + int k * ?st + s)) [0..<?n])"
      unfolding n map_upt_Suc_front by (simp add: algebra_simps)
    finally show ?thesis .
  qed
qed

lemma slice_nat: "slice xs (int a) (int b) = take (b - a) (drop a xs)"
proof -
  have lo: "nat (min (int a) (int (length xs))) = min a (length xs)"
    by (simp add: min_def)
  have len: "nat (min (int b) (int (length xs)) - min (int a) (int (length xs)))
      = min b (length xs) - min a (length xs)"
    by (simp add: min_def nat_diff_distrib')
  have "slice xs (int a) (int b) = take (min b (length xs) - min a (length xs)) (drop (min a (length xs)) xs)"
    unfolding slice_def Let_def using lo len by simp
  also have "\<dots> = take (b - a) (drop a xs)"
    by (cases "a \<le> length xs"; cases "b \<le> length xs") (simp_all add: min_def)
  finally show ?thesis .
qed

lemma slice_window:
  "slice T (int k * int step) (int k * int step + int sz) = window T sz step k"
  using slice_nat[of T "k * step" "k * step + sz"] by (simp add: window_def)

lemma ceil_div_nat:
  assumes "0 < step"
  shows "nat ((int n + int step - 1) div int step) = (n + step - 1) div step"
proof -
  have "int n + int step - 1 = int (n + step - 1)" using assms by simp
  then show ?thesis by (simp only: zdiv_int[symmetric] nat_int)
qed

lemma count_iff:
  assumes "0 < step"
  shows "k < (n + step - 1) div step \<longleftrightarrow> k * step < (n::nat)"
proof -
  have "k < (n + step - 1) div step \<longleftrightarrow> Suc k \<le> (n + step - 1) div step" by auto
  also have "\<dots> \<longleftrightarrow> Suc k * step \<le> n + step - 1"
    using assms by (simp only: less_eq_div_iff_mult_less_eq)
  also have "\<dots> \<longleftrightarrow> k * step < n" using assms by auto
  finally show ?thesis .
qed

lemma chunkText_windows:
  assumes "ov < sz"
  shows "chunkText T (int sz) (int ov) =
     Some (map (window T sz (sz - ov)) [0..<(length T + (sz - ov) - 1) div (sz - ov)])"
proof -
  let ?st = "sz - ov"
  have st: "0 < ?st" and ist: "int sz - int ov = int ?st" using assms by simp_all
  have lt: "int ov < int sz" using assms by simp
  have "chunkText T (int sz) (int ov) =
      Some ([] @ map (\<lambda>k. slice T (0 + int k * (int sz - int ov)) (0 + int k * (int sz - int ov) + int sz))
                 [0..<nat ((int (length T) - 0 + (int sz - int ov) - 1) div (int sz - int ov))])"
    unfolding chunkText_def by (rule chunk_loop_runs[OF lt])
  then show ?thesis
    by (simp only: ist append_Nil add_0 diff_zero slice_window ceil_div_nat[OF st])
qed

text \<open>
  Claim C9. With \<open>0 \<le> overlap < chunkSize\<close> the loop of \<open>chunkText\<close> ends and returns its
  chunks, whatever the text; with \<open>overlap \<ge> chunkSize\<close> and a non-empty text the index
  never advances and the loop does not end.
\<close>

theorem chunkText_terminates:
  "(0 \<le> overlap \<and> overlap < chunkSize \<longrightarrow> (\<exists>chunks. chunkText T chunkSize overlap = Some chunks))
   \<and> (chunkSize \<le> overlap \<and> T \<noteq> [] \<longrightarrow> chunkText T chunkSize overlap = None)"
  using chunk_loop_runs[of overlap chunkSize T 0 "[]"] chunk_loop_stuck[of chunkSize overlap 0 T "[]"]
  by (auto simp: chunkText_def)

theorem chunkText_terminates_witness:
  "(\<exists>chunks. chunkText (js ''abcdefgh'') 4 2 = Some chunks) \<and> chunkText (js ''ab'') 2 2 = None
    \<and> chunkText (js ''ab'') 2 3 = None"
  using chunkText_terminates[of 2 4 "js ''abcdefgh''"] chunkText_terminates[of 2 2 "js ''ab''"]
    chunkText_terminates[of 3 2 "js ''ab''"]
  by (simp add: js_def)

text \<open>
  The count of the specification fails on the code: an 8-character text cut with size 4
  and overlap 2 gives 4 chunks where the formula gives 3, and a 3-character text gives 2
  chunks where the specification gives 1. The last chunk starts inside the text, and lies
  wholly in the overlap of the chunk before it.
\<close>

theorem chunkText_count_counterexample:
  "chunkText (js ''abcdefgh'') 4 2 = Some [js ''abcd'', js ''cdef'', js ''efgh'', js ''gh'']
   \<and> claimed_chunk_count (length (js ''abcdefgh'')) 4 2 = 3
   \<and> chunkText (js ''abc'') 4 2 = Some [js ''abc'', js ''c'']
   \<and> claimed_chunk_count (length (js ''abc'')) 4 2 = 1"
  by (simp add: chunkText_def chunk_loop.simps slice_def js_def claimed_chunk_count_def)

text \<open>
  Claim C2, as amended. For \<open>overlap < chunkSize\<close>, \<open>chunkText\<close> returns, in offset order, the
  windows \<open>T[k * step .. k * step + chunkSize)\<close> with \<open>step = chunkSize - overlap\<close>, for
  exactly the \<open>k\<close> with \<open>k * step < len(T)\<close>; a window has \<open>chunkSize\<close> characters, or what is
  left of the text when that is less; and the number of chunks is \<open>ceil(len(T) / step)\<close>,
  which is 0 for the empty text.
\<close>

theorem chunkText_spec:
  assumes "overlap < chunkSize"
  shows "chunkText T (int chunkSize) (int overlap) =
           Some (map (window T chunkSize (chunkSize - overlap))
                   [0..<(length T + (chunkSize - overlap) - 1) div (chunkSize - overlap)])
         \<and> (\<forall>k. k < (length T + (chunkSize - overlap) - 1) div (chunkSize - overlap)
                  \<longleftrightarrow> k * (chunkSize - overlap) < length T)
         \<and> (\<forall>k. length (window T chunkSize (chunkSize - overlap) k)
                  = min chunkSize (length T - k * (chunkSize - overlap)))"
  using chunkText_windows[OF assms] count_iff[of "chunkSize - overlap" _ "length T"] assms
  by (simp add: window_def min.commute)

theorem chunkText_spec_witness:
  "chunkText (js ''abcdefgh'') 4 2 = Some [js ''abcd'', js ''cdef'', js ''efgh'', js ''gh'']"
  using chunkText_spec[of 2 4 "js ''abcdefgh''"]
  by (simp add: js_def window_def upt_conv_Cons)

section \<open>Properties of the embedding gateway\<close>

lemma is_vector_truthy: "is_vector v \<Longrightarrow> truthy v"
  by (cases v) simp_all

lemma slice_0_take: "0 \<le> n \<Longrightarrow> slice xs 0 n = take (nat n) xs"
  by (auto simp: slice_def Let_def min_def)

text \<open>
  The claim fails where a field holds something other than a vector. A response whose
  \<open>embedding.values\<close> is a string has none of the three shapes, yet \<open>embedText\<close> returns the
  string instead of failing; and the same field in front of a well-formed
  \<open>data[0].embedding\<close> wins over the vector.
\<close>

theorem embedText_counterexample:
  "\<not> is_vector (embedding_values junk_response)
   \<and> \<not> is_vector (data_0_embedding junk_response)
   \<and> \<not> is_vector (embeddings_0_values junk_response)
   \<and> embedText dump (\<lambda>t. Inr junk_response) (js ''hello'') = Inr (Str (js ''n/a''))
   \<and> is_vector (data_0_embedding shadowed_response)
   \<and> data_0_embedding shadowed_response = Arr [Number 1, Number 2]
   \<and> embedText dump (\<lambda>t. Inr shadowed_response) (js ''hello'') = Inr (Str (js ''n/a''))"
  by (simp add: embedText_def embedding_values_def data_0_embedding_def embeddings_0_values_def
      junk_response_def shadowed_response_def js_def)

text \<open>
  Claim C7, as amended. \<open>embedText\<close> reads \<open>response.embedding.values\<close>,
  \<open>response.data[0].embedding\<close> and \<open>response.embeddings[0].values\<close> in this order and
  returns the first that is truthy, as it is; a numeric vector, also the empty one, is
  truthy, so a response whose first truthy field is a vector yields that vector. When
  none of the three is truthy, \<open>embedText\<close> fails with an \<open>Error\<close> whose message is
  \<open>Unexpected embedding response shape: \<close> followed by the first 200 characters of
  \<open>JSON.stringify(response)\<close>; when the response is \<open>undefined\<close> or a function,
  \<open>JSON.stringify\<close> gives no string and the failure is a \<open>TypeError\<close>.
\<close>

theorem embedText_shapes:
  assumes "call text = Inr response"
  shows
   "(truthy (embedding_values response) \<longrightarrow>
       embedText sfy call text = Inr (embedding_values response))
    \<and> (\<not> truthy (embedding_values response) \<and> truthy (data_0_embedding response) \<longrightarrow>
       embedText sfy call text = Inr (data_0_embedding response))
    \<and> (\<not> truthy (embedding_values response) \<and> \<not> truthy (data_0_embedding response)
        \<and> truthy (embeddings_0_values response) \<longrightarrow>
       embedText sfy call text = Inr (embeddings_0_values response))
    \<and> (\<not> truthy (embedding_values response) \<and> \<not> truthy (data_0_embedding response)
        \<and> \<not> truthy (embeddings_0_values response) \<longrightarrow>
       (if response = Undefined \<or> (\<exists>f. response = Fn f)
        then embedText sfy call text = Inl TypeError
        else embedText sfy call text =
               Inl (Error (js ''Unexpected embedding response shape: ''
                           @ take 200 (sfy response)))
             \<and> length (take 200 (sfy response)) \<le> 200))
    \<and> (is_vector (embedding_values response) \<longrightarrow> truthy (embedding_values response))
    \<and> (is_vector (data_0_embedding response) \<longrightarrow> truthy (data_0_embedding response))
    \<and> (is_vector (embeddings_0_values response) \<longrightarrow> truthy (embeddings_0_values response))"
  using assms
  by (cases response) (simp_all add: embedText_def is_vector_truthy slice_0_take)

theorem embedText_shapes_witness:
  "embedText dump (\<lambda>t. Inr results_response) (js ''hello'') = Inr (Arr [Number 1, Number 2])
   \<and> embedText dump (\<lambda>t. Inr (Obj [])) (js ''hello'') =
       Inl (Error (js ''Unexpected embedding response shape: '' @ replicate 200 0x7B))"
  using embedText_shapes[of "\<lambda>t. Inr results_response" "js ''hello''" results_response dump]
    embedText_shapes[of "\<lambda>t. Inr (Obj [])" "js ''hello''" "Obj []" dump]
  by (simp add: embedding_values_def data_0_embedding_def embeddings_0_values_def
      results_response_def dump_def js_def)

section \<open>Properties of the ranker\<close>

lemma mset_insert_by: "mset (insert_by cmp x ys) = add_mset x (mset ys)"
  by (induction ys) simp_all

lemma set_insert_by: "set (insert_by cmp x ys) = insert x (set ys)"
  by (induction ys) auto

lemma js_ge_trans: "js_ge u v \<Longrightarrow> js_ge v w \<Longrightarrow> js_ge u w"
  by (cases u; cases v; cases w) simp_all

lemma positive_minus: "u \<noteq> NaN \<Longrightarrow> v \<noteq> NaN \<Longrightarrow> positive (js_minus v u) = (\<not> js_ge u v)"
  by (cases u; cases v) auto

lemma js_ge_total: "u \<noteq> NaN \<Longrightarrow> v \<noteq> NaN \<Longrightarrow> js_ge u v \<or> js_ge v u"
  by (cases u; cases v) auto

lemma positive_minus_neq: "positive (js_minus v u) \<Longrightarrow> u \<noteq> v"
  by (cases u; cases v) auto

lemma sorted_insert_by:
  assumes "sorted_wrt (\<lambda>a b. js_ge (score a) (score b)) ys"
    and "score x \<noteq> NaN" and "\<forall>e \<in> set ys. score e \<noteq> NaN"
  shows "sorted_wrt (\<lambda>a b. js_ge (score a) (score b))
           (insert_by (\<lambda>a b. js_minus (score b) (score a)) x ys)"
  using assms
proof (induction ys)
  case Nil
  then show ?case by simp
next
  case (Cons y ys)
  have y: "score y \<noteq> NaN" using Cons.prems(3) by simp
  show ?case
  proof (cases "js_ge (score x) (score y)")
    case True
    then have "\<forall>e \<in> set ys. js_ge (score x) (score e)"
      using Cons.prems(1) by (auto intro: js_ge_trans)
    with True Cons.prems show ?thesis
      by (simp add: positive_minus y)
  next
    case False
    then have "js_ge (score y) (score x)"
      using js_ge_total[OF Cons.prems(2) y] by blast
    with False Cons show ?thesis
      by (auto simp: positive_minus set_insert_by)
  qed
qed

lemma filter_insert_by:
  "filter (\<lambda>e. score e = s) (insert_by (\<lambda>a b. js_minus (score b) (score a)) x ys) =
     (if score x = s then x # filter (\<lambda>e. score e = s) ys else filter (\<lambda>e. score e = s) ys)"
  by (induction ys) (auto dest: positive_minus_neq)

lemma set_rank: "set (rank xs) = set xs"
  unfolding rank_def sort_by_def by (induction xs) (simp_all add: set_insert_by)

lemma sorted_rank:
  "\<forall>e \<in> set xs. score e \<noteq> NaN \<Longrightarrow> sorted_wrt (\<lambda>a b. js_ge (score a) (score b)) (rank xs)"
proof (induction xs)
  case Nil
  then show ?case by (simp add: rank_def sort_by_def)
next
  case (Cons x xs)
  then have "sorted_wrt (\<lambda>a b. js_ge (score a) (score b)) (rank xs)"
    and "\<forall>e \<in> set (rank xs). score e \<noteq> NaN" and "score x \<noteq> NaN"
    by (simp_all add: set_rank)
  from sorted_insert_by[OF this(1,3,2)] show ?case
    by (simp add: rank_def sort_by_def)
qed

lemma mset_rank: "mset (rank xs) = mset xs"
  unfolding rank_def sort_by_def by (induction xs) (simp_all add: mset_insert_by)

lemma filter_rank: "filter (\<lambda>e. score e = s) (rank xs) = filter (\<lambda>e. score e = s) xs"
  unfolding rank_def sort_by_def by (induction xs) (simp_all add: filter_insert_by)

lemma rank_nan: "rank nan_scores = nan_scores"
  by (simp add: rank_def sort_by_def nan_scores_def)

lemma js_ge_NaN: "\<not> js_ge v NaN"
  by (cases v) simp_all

lemma nan_never_descending:
  assumes "e \<in> set ys" and "score e = NaN" and "2 \<le> length ys"
  shows "\<not> descending ys"
proof
  assume d: "descending ys"
  then have step: "js_ge (score (ys ! k)) (score (ys ! Suc k))" if "Suc k < length ys" for k
    using that by (simp add: descending_def)
  from assms(1) obtain i where i: "i < length ys" "ys ! i = e"
    by (auto simp: in_set_conv_nth)
  show False
  proof (cases "Suc i < length ys")
    case True
    from step[OF True] i assms(2) show False by simp
  next
    case False
    with i assms(3) obtain j where j: "i = Suc j" by (cases i) auto
    with i have "Suc j < length ys" by simp
    from step[OF this] i j assms(2) show False by (simp add: js_ge_NaN)
  qed
qed

text \<open>
  The claim fails on the code for a score that is NaN: the comparator then returns NaN,
  which the sort takes for equal, and the three chunks below stay as they are, 0.6 in
  front of 0.8. No order of these chunks is descending, whatever the sort does, since
  \<open>>=\<close> is false on NaN.
\<close>

theorem rank_nan_counterexample:
  "rank nan_scores = nan_scores
   \<and> \<not> js_ge (score (rank nan_scores ! 0)) (score (rank nan_scores ! 1))
   \<and> \<not> js_ge (score (rank nan_scores ! 0)) (score (rank nan_scores ! 2))
   \<and> score (rank nan_scores ! 0) = Num (3/5) \<and> score (rank nan_scores ! 2) = Num (4/5)
   \<and> \<not> descending (rank nan_scores)
   \<and> \<not> (\<exists>ys. mset ys = mset nan_scores \<and> descending ys)"
proof -
  have "\<not> descending ys" if "mset ys = mset nan_scores" for ys
  proof -
    from that have "set ys = set nan_scores" by (rule mset_eq_setD)
    then have "\<lparr>scored_text = js ''b'', score = NaN\<rparr> \<in> set ys"
      by (simp add: nan_scores_def)
    moreover from that have "length ys = length nan_scores" by (rule mset_eq_length)
    then have "2 \<le> length ys" by (simp add: nan_scores_def)
    ultimately show ?thesis
      using nan_never_descending[of "\<lparr>scored_text = js ''b'', score = NaN\<rparr>" ys] by simp
  qed
  then have "\<not> (\<exists>ys. mset ys = mset nan_scores \<and> descending ys)"
    and "\<not> descending (rank nan_scores)"
    by (auto simp: rank_nan)
  then show ?thesis
    by (simp add: rank_nan) (simp add: nan_scores_def)
qed

text \<open>
  Claim C6, as amended. For scored chunks of which no score is NaN, the ranked output
  holds the same chunks, every score is \<open>>=\<close> the score that follows it, and the chunks of
  equal score stand in the order they had before the sort.
\<close>

theorem rank_descending_stable:
  assumes "\<forall>e \<in> set xs. score e \<noteq> NaN"
  shows "(\<forall>i. Suc i < length (rank xs) \<longrightarrow>
            js_ge (score (rank xs ! i)) (score (rank xs ! Suc i)))
   \<and> descending (rank xs)
   \<and> mset (rank xs) = mset xs
   \<and> (\<forall>s. filter (\<lambda>e. score e = s) (rank xs) = filter (\<lambda>e. score e = s) xs)"
  using sorted_rank[OF assms] mset_rank[of xs] filter_rank[of _ xs]
  by (simp add: sorted_wrt_iff_nth_less descending_def)

lemma rank_tied: "rank tied_scores =
     [\<lparr>scored_text = js ''b'', score = Num (3/4)\<rparr>, \<lparr>scored_text = js ''d'', score = Num (3/4)\<rparr>,
      \<lparr>scored_text = js ''a'', score = Num (1/2)\<rparr>, \<lparr>scored_text = js ''c'', score = Num (1/2)\<rparr>]"
  by (simp add: rank_def sort_by_def tied_scores_def)

theorem rank_descending_stable_witness:
  "js_ge (score (rank tied_scores ! 0)) (score (rank tied_scores ! Suc 0))
   \<and> js_ge (score (rank tied_scores ! 2)) (score (rank tied_scores ! Suc 2))
   \<and> map scored_text (filter (\<lambda>e. score e = Num (1/2)) (rank tied_scores)) = [js ''a'', js ''c'']
   \<and> map scored_text (filter (\<lambda>e. score e = Num (3/4)) (rank tied_scores)) = [js ''b'', js ''d'']"
proof -
  have len: "length (rank tied_scores) = 4" by (simp add: rank_tied)
  have ok: "\<forall>e \<in> set tied_scores. score e \<noteq> NaN" by (simp add: tied_scores_def)
  from rank_descending_stable[OF ok]
  have desc: "\<And>i. Suc i < length (rank tied_scores) \<Longrightarrow>
                 js_ge (score (rank tied_scores ! i)) (score (rank tied_scores ! Suc i))"
    and stable: "\<And>s. filter (\<lambda>e. score e = s) (rank tied_scores)
                      = filter (\<lambda>e. score e = s) tied_scores"
    by blast+
  have "js_ge (score (rank tied_scores ! 0)) (score (rank tied_scores ! Suc 0))"
    by (rule desc) (simp add: len)
  moreover have "js_ge (score (rank tied_scores ! 2)) (score (rank tied_scores ! Suc 2))"
    by (rule desc) (simp add: len)
  moreover have "map scored_text (filter (\<lambda>e. score e = Num (1/2)) (rank tied_scores)) = [js ''a'', js ''c'']"
    unfolding stable by (simp add: tied_scores_def)
  moreover have "map scored_text (filter (\<lambda>e. score e = Num (3/4)) (rank tied_scores)) = [js ''b'', js ''d'']"
    unfolding stable by (simp add: tied_scores_def)
  ultimately show ?thesis by blast
qed

section \<open>Properties of the serialisation\<close>

lemma serialised_empty: "serialised Map.empty = Map.empty"
  by (simp add: serialised_def)

lemma serialised_upd: "serialised (m(k \<mapsto> d)) = (serialised m)(k \<mapsto> stored_document d)"
  by (auto simp: serialised_def)

lemma serialised_at: "serialised m k = map_option stored_document (m k)"
  by (simp add: serialised_def)

lemma stored_chunk_json: "is_json (embedding c) \<Longrightarrow> stored_chunk c = c"
  by (simp add: stored_chunk_def is_json_def)

lemma stored_document_json:
  "\<forall>c \<in> set (chunks d). is_json (embedding c) \<Longrightarrow> stored_document d = d"
  by (simp add: stored_document_def stored_chunk_json map_idI)

lemma serialised_json:
  assumes "\<forall>k d. m k = Some d \<longrightarrow> (\<forall>c \<in> set (chunks d). is_json (embedding c))"
  shows "serialised m = m"
proof
  fix k
  show "serialised m k = m k"
    using assms by (cases "m k") (simp_all add: serialised_at stored_document_json)
qed

lemma history_stored_document: "history (stored_document d) = history d"
  by (simp add: stored_document_def)

lemma stored_doc_of: "stored_document (doc_of f) = doc_of f"
  by (simp add: stored_document_def stored_chunk_def doc_of_def)

lemma stored_asked_doc: "stored_document asked_doc = asked_doc"
  by (simp add: stored_document_def stored_chunk_def asked_doc_def doc_of_def)

section \<open>The handlers on the concrete requests\<close>

lemma chunkText_short:
  "chunkText (js ''AAAABBBB'') 800 200 = Some [js ''AAAABBBB'']"
  by (simp add: chunkText_def chunk_loop.simps slice_def js_def)

lemma embedText_ok: "embedText sfy (\<lambda>t. Inr ok_response) t = Inr (Arr [Number 1])"
  by (simp add: embedText_def embedding_values_def ok_response_def js_def)

lemma toString_5: "toString 5 = js ''5''"
  by (simp add: toString.simps js_def)

lemma ext_txt: "extract_text demo_world file_a = Some (Inr (js ''AAAABBBB''))"
  "extract_text demo_world file_b = Some (Inr (js ''AAAABBBB''))"
  by (simp_all add: extract_text_def demo_world_def file_a_def file_b_def js_def)

lemma demo_upload_text:
  "upload_text demo_world f (js ''AAAABBBB'') st =
     Some (Response 200 (UploadOk (js ''5'') (originalname f) 1),
                 st\<lparr>documents := (documents st)(js ''5'' \<mapsto> doc_of f),
                    disk := Stored (serialised ((documents st)(js ''5'' \<mapsto> doc_of f)))\<rparr>)"
  by (simp add: upload_text_def chunkText_short demo_world_def
      embedText_ok toString_5 saveDocuments_def doc_of_def Let_def)

lemma demo_upload_a:
  "upload demo_world (Some file_a) empty_state =
     Some (Response 200 (UploadOk (js ''5'') (js ''a.txt'') 1), state_of file_a)"
  by (simp add: upload_def ext_txt demo_upload_text)
     (simp add: empty_state_def state_of_def file_a_def serialised_upd serialised_empty
        stored_doc_of)

lemma demo_upload_b:
  "upload demo_world (Some file_b) (state_of file_a) =
     Some (Response 200 (UploadOk (js ''5'') (js ''b.txt'') 1), state_of file_b)"
  by (simp add: upload_def ext_txt demo_upload_text)
     (simp add: state_of_def file_b_def serialised_upd serialised_empty stored_doc_of)

lemma ask_reaches_save:
  assumes "question \<noteq> []" and "trim question \<noteq> []" and "docId \<noteq> []"
    and "documents st docId = Some doc"
    and "embedText (stringify w) (embedContent w 0) question = Inr qVec"
    and "score_chunks w qVec (chunks doc) = Inr scored"
    and "generate w (prompt (topChunks (rank scored)) (history_section (history doc)) question)
           = Inr rawAnswer"
  shows "ask w question docId st =
     (case saveDocuments (writeFileSync w)
             (st\<lparr>documents := (documents st)(docId \<mapsto>
                  doc\<lparr>history := history doc @
                    [\<lparr>entry_q = question, entry_a = rawAnswer,
                      entry_createdAt = clock w 0\<rparr>]\<rparr>)\<rparr>) of
        (Some e, st2) \<Rightarrow> (ask_failed e, st2)
      | (None, st2) \<Rightarrow>
          (Response 200 (AskOk rawAnswer (history doc @
             [\<lparr>entry_q = question, entry_a = rawAnswer, entry_createdAt = clock w 0\<rparr>])),
           st2))"
  using assms by (simp add: ask_def lookup_doc_def Let_def split: prod.split option.split)

lemma ask_success_appends:
  assumes "ask w question docId st = (Response 200 (AskOk answer hist), st')"
  shows "\<exists>doc scored. documents st docId = Some doc
            \<and> generate w (prompt (topChunks (rank scored)) (history_section (history doc))
                   question) = Inr answer
            \<and> hist = history doc @
                 [\<lparr>entry_q = question, entry_a = answer, entry_createdAt = clock w 0\<rparr>]
            \<and> documents st' = (documents st)(docId \<mapsto> doc\<lparr>history := hist\<rparr>)"
  using assms
  by (auto simp: ask_def saveDocuments_def ask_failed_def lookup_doc_def Let_def
      split: if_splits sum.splits lookup.splits write_outcome.splits option.splits)

lemma demo_ask_steps:
  "js ''why?'' \<noteq> []" "trim (js ''why?'') \<noteq> []" "js ''5'' \<noteq> []"
  "embedText (stringify demo_world) (embedContent demo_world 0) (js ''why?'') = Inr (Arr [Number 1])"
  "score_chunks demo_world (Arr [Number 1]) (chunks (doc_of file_a))
     = Inr [\<lparr>scored_text = js ''AAAABBBB'', score = Num 1\<rparr>]"
  "generate demo_world p = Inr (js ''yes'')"
  "clock demo_world 0 = 5"
  by (simp_all add: js_def trim_def isWhiteSpace_def demo_world_def embedText_ok doc_of_def)

lemma demo_ask:
  "ask demo_world (js ''why?'') (js ''5'') (state_of file_a) =
     (Response 200 (AskOk (js ''yes'') [demo_entry]), asked_state)"
proof -
  have doc: "documents (state_of file_a) (js ''5'') = Some (doc_of file_a)"
    by (simp add: state_of_def)
  have h: "history (doc_of file_a) = []" by (simp add: doc_of_def)
  have w: "writeFileSync demo_world = Written" by (simp add: demo_world_def)
  have e: "history (doc_of file_a) @
             [\<lparr>entry_q = js ''why?'', entry_a = js ''yes'',
               entry_createdAt = clock demo_world 0\<rparr>] = [demo_entry]"
    by (simp add: demo_entry_def h demo_ask_steps(7))
  show ?thesis
    unfolding ask_reaches_save[OF demo_ask_steps(1,2,3) doc demo_ask_steps(4,5,6)] e
    by (simp add: saveDocuments_def w asked_state_def state_of_def
        serialised_upd serialised_empty stored_asked_doc asked_doc_def[symmetric])
qed

section \<open>Properties of the history section\<close>

lemma slice_from_neg: "0 < n \<Longrightarrow> slice_from xs (- int n) = drop (length xs - n) xs"
  by (auto simp: slice_from_def slice_def Let_def max_def nat_diff_distrib' not_le)

lemma drop_last_Nil: "0 < n \<Longrightarrow> drop (length xs - n) xs = [] \<longleftrightarrow> xs = []"
  by (cases xs) auto

lemma join_eq_Nil: "join sep xs = [] \<longleftrightarrow> (xs = [] \<or> (sep = [] \<and> (\<forall>x\<in>set xs. x = [])) \<or> xs = [[]])"
  by (induction sep xs rule: join.induct) auto

lemma render_entry_nonempty: "render_entry h \<noteq> []"
  by (simp add: render_entry_def js_def)

lemma recentHistory_eq:
  "recentHistory hist =
     join (js ''\<newline>\<newline>'') (map render_entry (drop (length hist - 6) hist))"
  using slice_from_neg[of 6 hist] by (simp add: recentHistory_def)

lemma recentHistory_Nil_iff: "recentHistory hist = [] \<longleftrightarrow> hist = []"
proof -
  have "[render_entry h] \<noteq> [[]]" for h by (simp add: render_entry_nonempty)
  moreover have "js ''\<newline>\<newline>'' \<noteq> []" by (simp add: js_def)
  ultimately show ?thesis
    using drop_last_Nil[of 6 hist]
    by (auto simp: recentHistory_eq join_eq_Nil render_entry_nonempty map_eq_Cons_conv)
qed

lemma drop_last6_of_8:
  assumes "length hist = 8"
  shows "drop (length hist - 6) hist = [hist ! 2, hist ! 3, hist ! 4, hist ! 5, hist ! 6, hist ! 7]"
proof -
  have "drop 2 hist = map ((!) hist) [2..<8]"
    using assms by (metis map_nth drop_map drop_upt add.left_neutral)
  then show ?thesis using assms by (simp add: upt_conv_Cons)
qed

text \<open>
  Claim C8. The history section of the prompt is the literal \<open>None\<close> for an empty history,
  and otherwise the last \<open>min(n, 6)\<close> entries of the history, in the order of the history,
  each rendered as \<open>Q: \<close> question, newline, \<open>A: \<close> answer, with an empty line between two
  entries; for a history of 8 entries these are the entries 3 to 8. The prompt of \<open>ask\<close>
  is built on this section of the document's history, and a request that succeeds appends
  its question and answer as one entry at the end of that history.
\<close>

theorem history_section_recent:
  "history_section hist =
     (if hist = [] then js ''None''
      else join (js ''\<newline>\<newline>'') (map render_entry (drop (length hist - 6) hist)))
   \<and> length (drop (length hist - 6) hist) = min (length hist) 6
   \<and> (\<forall>i < min (length hist) 6.
         drop (length hist - 6) hist ! i = hist ! (length hist - min (length hist) 6 + i))
   \<and> (length hist = 8 \<longrightarrow>
        history_section hist =
          join (js ''\<newline>\<newline>'') (map render_entry
            [hist ! 2, hist ! 3, hist ! 4, hist ! 5, hist ! 6, hist ! 7]))
   \<and> (ask w question docId st = (Response 200 (AskOk answer hist'), st') \<longrightarrow>
        (\<exists>doc scored. documents st docId = Some doc
           \<and> generate w (prompt (topChunks (rank scored)) (history_section (history doc))
                  question) = Inr answer
           \<and> hist' = history doc @
                [\<lparr>entry_q = question, entry_a = answer, entry_createdAt = clock w 0\<rparr>]))"
proof -
  have a: "history_section hist =
     (if hist = [] then js ''None''
      else join (js ''\<newline>\<newline>'') (map render_entry (drop (length hist - 6) hist)))"
    using recentHistory_Nil_iff[of hist] by (simp add: history_section_def recentHistory_eq)
  have b: "length (drop (length hist - 6) hist) = min (length hist) 6" by auto
  have c: "\<forall>i < min (length hist) 6.
         drop (length hist - 6) hist ! i = hist ! (length hist - min (length hist) 6 + i)"
    by (auto simp: min_def)
  have d: "length hist = 8 \<longrightarrow>
        history_section hist =
          join (js ''\<newline>\<newline>'') (map render_entry
            [hist ! 2, hist ! 3, hist ! 4, hist ! 5, hist ! 6, hist ! 7])"
    using a drop_last6_of_8[of hist] by auto
  have e: "ask w question docId st = (Response 200 (AskOk answer hist'), st') \<longrightarrow>
        (\<exists>doc scored. documents st docId = Some doc
           \<and> generate w (prompt (topChunks (rank scored)) (history_section (history doc))
                  question) = Inr answer
           \<and> hist' = history doc @
                [\<lparr>entry_q = question, entry_a = answer, entry_createdAt = clock w 0\<rparr>])"
    using ask_success_appends[of w question docId st answer hist' st'] by blast
  from a b c d e show ?thesis by blast
qed

theorem history_section_recent_witness:
  "history_section eight_pairs =
     js ''Q: q3\<newline>A: a3\<newline>\<newline>Q: q4\<newline>A: a4\<newline>\<newline>Q: q5\<newline>A: a5\<newline>\<newline>Q: q6\<newline>A: a6\<newline>\<newline>Q: q7\<newline>A: a7\<newline>\<newline>Q: q8\<newline>A: a8''
   \<and> history_section [] = js ''None''
   \<and> drop (length eight_pairs - 6) eight_pairs ! 0 = eight_pairs ! 2
   \<and> (\<exists>doc. documents (state_of file_a) (js ''5'') = Some doc
          \<and> [demo_entry] = history doc @ [demo_entry])"
proof -
  have len: "length eight_pairs = 8" by (simp add: eight_pairs_def)
  note t = history_section_recent[of eight_pairs demo_world "js ''why?''" "js ''5''"
      "state_of file_a" "js ''yes''" "[demo_entry]" asked_state]
  from t len have 1: "history_section eight_pairs =
          join (js ''\<newline>\<newline>'') (map render_entry
            [eight_pairs ! 2, eight_pairs ! 3, eight_pairs ! 4, eight_pairs ! 5,
             eight_pairs ! 6, eight_pairs ! 7])"
    by blast
  from t have "\<forall>i < min (length eight_pairs) 6.
         drop (length eight_pairs - 6) eight_pairs ! i
           = eight_pairs ! (length eight_pairs - min (length eight_pairs) 6 + i)"
    by blast
  then have 2: "drop (length eight_pairs - 6) eight_pairs ! 0 = eight_pairs ! 2"
    unfolding len by (simp add: numeral_2_eq_2)
  from t demo_ask have 3: "\<exists>doc. documents (state_of file_a) (js ''5'') = Some doc
          \<and> [demo_entry] = history doc @ [demo_entry]"
    by (auto simp: demo_entry_def demo_world_def)
  have 4: "history_section [] = js ''None''"
    using history_section_recent[of "[]"] by simp
  from 1 have "history_section eight_pairs =
     js ''Q: q3\<newline>A: a3\<newline>\<newline>Q: q4\<newline>A: a4\<newline>\<newline>Q: q5\<newline>A: a5\<newline>\<newline>Q: q6\<newline>A: a6\<newline>\<newline>Q: q7\<newline>A: a7\<newline>\<newline>Q: q8\<newline>A: a8''"
    by (simp add: eight_pairs_def render_entry_def js_def)
  with 2 3 4 show ?thesis by blast
qed

section \<open>Properties of the upload\<close>

lemma chunkText_default: "\<exists>rawChunks. chunkText T 800 200 = Some rawChunks"
  using chunkText_windows[of 200 800 T] by simp

lemma upload_responds: "\<exists>r st'. upload w file st = Some (r, st')"
proof -
  have "\<exists>r st'. upload_text w f T st = Some (r, st')" for f T
    using chunkText_default[of T]
    by (auto simp: upload_text_def Let_def split: sum.splits option.splits prod.splits)
  then show ?thesis
    by (auto simp: upload_def split: option.splits sum.splits)
qed

lemma embed_chunks_fails:
  "k < length cs \<Longrightarrow> embedText (stringify w) (embedContent w (n + k)) (cs ! k) = Inl e \<Longrightarrow>
   \<exists>e'. embed_chunks w n cs acc = Inl e'"
proof (induction cs arbitrary: n k acc)
  case Nil
  then show ?case by simp
next
  case (Cons c cs)
  show ?case
  proof (cases k)
    case 0
    with Cons.prems show ?thesis by simp
  next
    case (Suc j)
    show ?thesis
    proof (cases "embedText (stringify w) (embedContent w n) c")
      case (Inl e0)
      then show ?thesis by simp
    next
      case (Inr vec)
      from Cons.prems Suc have "j < length cs"
        and "embedText (stringify w) (embedContent w (Suc n + j)) (cs ! j) = Inl e"
        by simp_all
      from Cons.IH[OF this] Inr show ?thesis by simp
    qed
  qed
qed

text \<open>
  Claim C3. When the embedding of some chunk of an upload fails, the request is answered
  with the failure of the first chunk that failed, and the state is the state before the
  request: the mapping and the storage file are untouched, so no identifier has been
  added to the store.
\<close>

theorem upload_atomic:
  assumes "extract_text w f = Some (Inr T)"
    and "chunkText T 800 200 = Some rawChunks"
    and "k < length rawChunks"
    and "embedText (stringify w) (embedContent w k) (rawChunks ! k) = Inl e"
  shows "\<exists>e' st'. upload w (Some f) st = Some (upload_failed e', st')
           \<and> st' = st \<and> documents st' = documents st \<and> disk st' = disk st
           \<and> dom (documents st') = dom (documents st)"
proof -
  from embed_chunks_fails[of k rawChunks w 0 e "[]"] assms(3,4)
  obtain e' where "embed_chunks w 0 rawChunks [] = Inl e'" by auto
  with assms(1,2) have "upload w (Some f) st = Some (upload_failed e', st)"
    by (simp add: upload_def upload_text_def)
  then show ?thesis by blast
qed

theorem upload_atomic_witness:
  "\<exists>e'. upload failing_world (Some file_a) (state_of file_b)
          = Some (upload_failed e', state_of file_b)"
proof -
  have 1: "extract_text failing_world file_a = Some (Inr (js ''AAAABBBB''))"
    by (simp add: extract_text_def failing_world_def demo_world_def file_a_def js_def)
  have 2: "(0::nat) < length [js ''AAAABBBB'']" by simp
  have 3: "embedText (stringify failing_world) (embedContent failing_world 0)
              ([js ''AAAABBBB''] ! 0) = Inl (Rejected (js ''quota''))"
    by (simp add: embedText_def failing_world_def)
  from upload_atomic[OF 1 chunkText_short 2 3, of "state_of file_b"]
  show ?thesis by blast
qed

text \<open>
  The claim on duplicate identifiers fails on the code: with the clock at 5 and a
  document stored under \<open>5\<close>, a second upload succeeds and the document under \<open>5\<close> is
  replaced.
\<close>

theorem upload_duplicate_counterexample:
  "toString (clock demo_world 0) = js ''5''
   \<and> documents (state_of file_a) (js ''5'') = Some (doc_of file_a)
   \<and> upload demo_world (Some file_b) (state_of file_a) =
       Some (Response 200 (UploadOk (js ''5'') (js ''b.txt'') 1), state_of file_b)
   \<and> documents (state_of file_b) (js ''5'') = Some (doc_of file_b)
   \<and> doc_of file_b \<noteq> doc_of file_a
   \<and> documents (state_of file_b) \<noteq> documents (state_of file_a)"
proof -
  have ne: "doc_of file_b \<noteq> doc_of file_a"
    by (simp add: doc_of_def file_a_def file_b_def js_def)
  have "documents (state_of file_b) (js ''5'') \<noteq> documents (state_of file_a) (js ''5'')"
    using ne by (simp add: state_of_def)
  then have "documents (state_of file_b) \<noteq> documents (state_of file_a)" by metis
  with ne demo_upload_b show ?thesis
    by (simp add: toString_5 demo_world_def state_of_def)
qed

lemma readonly_upload_b:
  "upload readonly_world (Some file_b) (state_of file_a) =
     Some (upload_failed (Rejected (js ''EACCES'')), replaced_unsaved)"
proof -
  have x: "extract_text readonly_world file_b = Some (Inr (js ''AAAABBBB''))"
    by (simp add: extract_text_def readonly_world_def demo_world_def file_b_def js_def)
  have t: "upload_text readonly_world file_b (js ''AAAABBBB'') (state_of file_a) =
     Some (upload_failed (Rejected (js ''EACCES'')), replaced_unsaved)"
    by (simp add: upload_text_def chunkText_short readonly_world_def demo_world_def
        embedText_ok toString_5 saveDocuments_def Let_def)
       (simp add: state_of_def replaced_unsaved_def doc_of_def)
  show ?thesis by (simp add: upload_def x t)
qed

text \<open>
  Claim C1, as amended. An upload that reaches the insertion, its text extracted and
  every chunk embedded, has no duplicate-identifier failure: also when its identifier is
  already a key of the store, the new document replaces in memory the one stored under
  that identifier. When storage.json is then written, the upload answers with success
  and the identifier, and the file holds the JSON serialisation of the new mapping; when
  the write throws, the upload answers 500 with that error, and the replacement stays in
  memory while the file holds what the failed write left.
\<close>

theorem upload_replaces_existing:
  assumes "extract_text w f = Some (Inr T)"
    and "chunkText T 800 200 = Some rawChunks"
    and "embed_chunks w 0 rawChunks [] = Inr embeddedChunks"
    and "documents st (toString (clock w 0)) = Some old"
  shows "\<exists>r st'. upload w (Some f) st = Some (r, st')
           \<and> documents st' = (documents st)(toString (clock w 0) \<mapsto>
                \<lparr>filename = originalname f, chunks = embeddedChunks, history = [],
                 createdAt = clock w 1\<rparr>)
           \<and> (case writeFileSync w of
                 Written \<Rightarrow>
                   r = Response 200 (UploadOk (toString (clock w 0)) (originalname f)
                                       (length embeddedChunks))
                   \<and> disk st' = Stored (serialised (documents st'))
               | Refused e \<Rightarrow> r = upload_failed e \<and> disk st' = disk st
               | Interrupted e \<Rightarrow> r = upload_failed e \<and> disk st' = Torn)"
  using assms
  by (cases "writeFileSync w")
     (simp_all add: upload_def upload_text_def saveDocuments_def Let_def)

theorem upload_replaces_existing_witness:
  "upload demo_world (Some file_b) (state_of file_a) =
       Some (Response 200 (UploadOk (js ''5'') (js ''b.txt'') 1), state_of file_b)
   \<and> documents (state_of file_b) = (documents (state_of file_a))(js ''5'' \<mapsto> doc_of file_b)
   \<and> disk (state_of file_b) = Stored (serialised (documents (state_of file_b)))
   \<and> upload readonly_world (Some file_b) (state_of file_a) =
       Some (upload_failed (Rejected (js ''EACCES'')), replaced_unsaved)
   \<and> documents replaced_unsaved = (documents (state_of file_a))(js ''5'' \<mapsto> doc_of file_b)
   \<and> disk replaced_unsaved = disk (state_of file_a)"
proof -
  have e: "embed_chunks demo_world 0 [js ''AAAABBBB''] []
       = Inr [\<lparr>chunk_text = js ''AAAABBBB'', embedding = Arr [Number 1]\<rparr>]"
    by (simp add: demo_world_def embedText_ok)
  have w: "writeFileSync demo_world = Written" by (simp add: demo_world_def)
  have d: "documents (state_of file_a) (toString (clock demo_world 0)) = Some (doc_of file_a)"
    by (simp add: demo_world_def toString_5 state_of_def)
  have new: "\<lparr>filename = originalname file_b,
              chunks = [\<lparr>chunk_text = js ''AAAABBBB'', embedding = Arr [Number 1]\<rparr>],
              history = [], createdAt = clock demo_world 1\<rparr> = doc_of file_b"
    by (simp add: doc_of_def demo_world_def)
  from upload_replaces_existing[OF ext_txt(2) chunkText_short e d]
  obtain r st' where a: "upload demo_world (Some file_b) (state_of file_a) = Some (r, st')"
    and b: "documents st' = (documents (state_of file_a))(toString (clock demo_world 0) \<mapsto>
                \<lparr>filename = originalname file_b,
                 chunks = [\<lparr>chunk_text = js ''AAAABBBB'', embedding = Arr [Number 1]\<rparr>],
                 history = [], createdAt = clock demo_world 1\<rparr>)"
    and c: "disk st' = Stored (serialised (documents st'))"
    unfolding w by auto
  from a demo_upload_b have st': "st' = state_of file_b" by simp
  have x: "extract_text readonly_world file_b = Some (Inr (js ''AAAABBBB''))"
    by (simp add: extract_text_def readonly_world_def demo_world_def file_b_def js_def)
  have e2: "embed_chunks readonly_world 0 [js ''AAAABBBB''] []
       = Inr [\<lparr>chunk_text = js ''AAAABBBB'', embedding = Arr [Number 1]\<rparr>]"
    by (simp add: readonly_world_def demo_world_def embedText_ok)
  have w2: "writeFileSync readonly_world = Refused (Rejected (js ''EACCES''))"
    by (simp add: readonly_world_def)
  have c2: "clock readonly_world = clock demo_world"
    by (simp add: readonly_world_def)
  have d2: "documents (state_of file_a) (toString (clock readonly_world 0)) = Some (doc_of file_a)"
    using d by (simp add: c2)
  from upload_replaces_existing[OF x chunkText_short e2 d2]
  obtain r2 st2 where a2: "upload readonly_world (Some file_b) (state_of file_a) = Some (r2, st2)"
    and b2: "documents st2 = (documents (state_of file_a))(toString (clock readonly_world 0) \<mapsto>
                \<lparr>filename = originalname file_b,
                 chunks = [\<lparr>chunk_text = js ''AAAABBBB'', embedding = Arr [Number 1]\<rparr>],
                 history = [], createdAt = clock readonly_world 1\<rparr>)"
    and d3: "disk st2 = disk (state_of file_a)"
    unfolding w2 by auto
  from a2 readonly_upload_b have st2: "st2 = replaced_unsaved" by simp
  from b c st' have "documents (state_of file_b)
        = (documents (state_of file_a))(js ''5'' \<mapsto> doc_of file_b)"
    and "disk (state_of file_b) = Stored (serialised (documents (state_of file_b)))"
    by (simp_all add: demo_world_def toString_5 doc_of_def)
  moreover from b2 d3 st2 have "documents replaced_unsaved
        = (documents (state_of file_a))(js ''5'' \<mapsto> doc_of file_b)"
    and "disk replaced_unsaved = disk (state_of file_a)"
    by (simp_all add: c2 demo_world_def toString_5 doc_of_def)
  ultimately show ?thesis
    using demo_upload_b readonly_upload_b by simp
qed

section \<open>Persistence\<close>

lemma upload_success_synced:
  "upload w file st = Some (r, st') \<Longrightarrow> succeeded r \<Longrightarrow>
     disk st' = Stored (serialised (documents st'))"
  by (auto simp: upload_def upload_text_def saveDocuments_def upload_failed_def Let_def
      split: option.splits sum.splits write_outcome.splits)

lemma ask_success_synced:
  "ask w question docId st = (r, st') \<Longrightarrow> succeeded r \<Longrightarrow>
     disk st' = Stored (serialised (documents st'))"
  by (auto simp: ask_def saveDocuments_def ask_failed_def Let_def
      split: if_splits sum.splits lookup.splits write_outcome.splits)

lemma method_upload:
  "upload method_world (Some file_a) empty_state =
     Some (Response 200 (UploadOk (js ''5'') (js ''a.txt'') 1), method_state)"
proof -
  have x: "extract_text method_world file_a = Some (Inr (js ''AAAABBBB''))"
    by (simp add: extract_text_def method_world_def demo_world_def file_a_def js_def)
  have e: "embedText sfy (\<lambda>t. Inr (Obj [(js ''embedding'', Arr [Number 1])])) t
             = Inr (Fn (js ''values''))" for sfy t
    by (simp add: embedText_def embedding_values_def js_def)
  have t: "upload_text method_world file_a (js ''AAAABBBB'') empty_state =
     Some (Response 200 (UploadOk (js ''5'') (js ''a.txt'') 1), method_state)"
    by (simp add: upload_text_def chunkText_short method_world_def
        demo_world_def e toString_5 saveDocuments_def Let_def)
       (simp add: empty_state_def method_state_def method_doc_def file_a_def
        serialised_upd serialised_empty stored_document_def stored_chunk_def)
  show ?thesis by (simp add: upload_def x t)
qed

text \<open>
  The claim fails on the code where the store holds a value that JSON does not write.
  For the response \<open>{embedding: [1]}\<close> the gateway returns the method
  \<open>Array.prototype.values\<close>; the upload stores it as the embedding of the chunk and answers
  with success, and the file holds the chunk without an embedding.
\<close>

theorem persisted_copy_counterexample:
  "upload method_world (Some file_a) empty_state =
     Some (Response 200 (UploadOk (js ''5'') (js ''a.txt'') 1), method_state)
   \<and> documents method_state (js ''5'') = Some (method_doc (Fn (js ''values'')))
   \<and> disk method_state = Stored [js ''5'' \<mapsto> method_doc Undefined]
   \<and> method_doc Undefined \<noteq> method_doc (Fn (js ''values''))
   \<and> disk method_state \<noteq> Stored (documents method_state)"
proof -
  have ne: "method_doc Undefined \<noteq> method_doc (Fn (js ''values''))"
    by (simp add: method_doc_def)
  then have "[js ''5'' \<mapsto> method_doc Undefined] (js ''5'')
          \<noteq> [js ''5'' \<mapsto> method_doc (Fn (js ''values''))] (js ''5'')"
    by simp
  then have "[js ''5'' \<mapsto> method_doc Undefined]
          \<noteq> [js ''5'' \<mapsto> method_doc (Fn (js ''values''))]"
    by metis
  with ne method_upload show ?thesis
    by (simp add: method_state_def)
qed

text \<open>
  Claim C4, as amended. When an upload or a question is answered with success,
  \<open>saveDocuments\<close> ran, and did not throw, before the response was built: the storage file
  holds the JSON serialisation of the whole in-memory mapping as it stands at that
  answer. The file holds the mapping itself when every embedding in the store is JSON
  data.
\<close>

theorem persisted_before_success:
  "(upload w file st = Some (r, st') \<and> succeeded r \<longrightarrow>
      disk st' = Stored (serialised (documents st'))
      \<and> ((\<forall>k d. documents st' k = Some d \<longrightarrow> (\<forall>c \<in> set (chunks d). is_json (embedding c)))
           \<longrightarrow> disk st' = Stored (documents st')))
   \<and> (ask w2 question docId st2 = (r2, st2') \<and> succeeded r2 \<longrightarrow>
      disk st2' = Stored (serialised (documents st2'))
      \<and> ((\<forall>k d. documents st2' k = Some d \<longrightarrow> (\<forall>c \<in> set (chunks d). is_json (embedding c)))
           \<longrightarrow> disk st2' = Stored (documents st2')))"
  using upload_success_synced[of w "file" st r st'] ask_success_synced[of w2 question docId st2 r2 st2']
    serialised_json[of "documents st'"] serialised_json[of "documents st2'"]
  by auto

theorem persisted_before_success_witness:
  "upload demo_world (Some file_a) empty_state =
       Some (Response 200 (UploadOk (js ''5'') (js ''a.txt'') 1), state_of file_a)
   \<and> disk (state_of file_a) = Stored (serialised (documents (state_of file_a)))
   \<and> disk (state_of file_a) = Stored (documents (state_of file_a))
   \<and> ask demo_world (js ''why?'') (js ''5'') (state_of file_a) =
       (Response 200 (AskOk (js ''yes'') [demo_entry]), asked_state)
   \<and> disk asked_state = Stored (serialised (documents asked_state))
   \<and> disk asked_state = Stored (documents asked_state)"
proof -
  have j: "is_json (Arr [Number 1])" by (simp add: is_json_def)
  have ja: "\<forall>k d. documents (state_of file_a) k = Some d \<longrightarrow>
              (\<forall>c \<in> set (chunks d). is_json (embedding c))"
    by (auto simp: state_of_def doc_of_def j split: if_splits)
  have jb: "\<forall>k d. documents asked_state k = Some d \<longrightarrow>
              (\<forall>c \<in> set (chunks d). is_json (embedding c))"
    by (auto simp: asked_state_def asked_doc_def doc_of_def j split: if_splits)
  note t = persisted_before_success[of demo_world "Some file_a" empty_state
      "Response 200 (UploadOk (js ''5'') (js ''a.txt'') 1)" "state_of file_a"
      demo_world "js ''why?''" "js ''5''" "state_of file_a"
      "Response 200 (AskOk (js ''yes'') [demo_entry])" asked_state]
  have s1: "succeeded (Response 200 (UploadOk (js ''5'') (js ''a.txt'') 1))"
    and s2: "succeeded (Response 200 (AskOk (js ''yes'') [demo_entry]))"
    by simp_all
  from t demo_upload_a s1 ja
  have u: "disk (state_of file_a) = Stored (serialised (documents (state_of file_a)))
           \<and> disk (state_of file_a) = Stored (documents (state_of file_a))"
    by blast
  from t demo_ask s2 jb
  have v: "disk asked_state = Stored (serialised (documents asked_state))
           \<and> disk asked_state = Stored (documents asked_state)"
    by blast
  from u v demo_upload_a demo_ask show ?thesis by blast
qed

lemma differ_at:
  "m1 k = Some d1 \<Longrightarrow> m2 k = Some d2 \<Longrightarrow> length (history d1) \<noteq> length (history d2) \<Longrightarrow>
   m1 \<noteq> m2"
  by auto

text \<open>
  Claim C10. When a question has been answered by the generation capability and writing
  the storage file then fails, the request is answered with the failure, the document in
  memory keeps the entry just appended, and, the file having held the mapping (as it is,
  or as JSON serialises it) before the request, the file now differs from the mapping
  and from its serialisation; the next request that succeeds leaves the file holding
  the serialisation of the mapping again, which is the mapping itself when every
  embedding in the store is JSON data.
\<close>

theorem ask_persist_failure:
  assumes "question \<noteq> []" and "trim question \<noteq> []" and "docId \<noteq> []"
    and "documents st docId = Some doc"
    and "embedText (stringify w) (embedContent w 0) question = Inr qVec"
    and "score_chunks w qVec (chunks doc) = Inr scored"
    and "generate w (prompt (topChunks (rank scored)) (history_section (history doc)) question)
           = Inr rawAnswer"
    and "writeFileSync w = Refused e \<or> writeFileSync w = Interrupted e"
    and "disk st = Stored (documents st) \<or> disk st = Stored (serialised (documents st))"
  shows "\<exists>st'. ask w question docId st = (ask_failed e, st')
           \<and> documents st' docId = Some (doc\<lparr>history := history doc @
                 [\<lparr>entry_q = question, entry_a = rawAnswer, entry_createdAt = clock w 0\<rparr>]\<rparr>)
           \<and> documents st' \<noteq> documents st
           \<and> disk st' \<noteq> Stored (documents st')
           \<and> disk st' \<noteq> Stored (serialised (documents st'))
           \<and> (\<forall>w2 q2 id2 r2 st2. ask w2 q2 id2 st' = (r2, st2) \<and> succeeded r2 \<longrightarrow>
                  disk st2 = Stored (serialised (documents st2))
                  \<and> ((\<forall>k d. documents st2 k = Some d \<longrightarrow>
                          (\<forall>c \<in> set (chunks d). is_json (embedding c)))
                       \<longrightarrow> disk st2 = Stored (documents st2)))
           \<and> (\<forall>w2 file2 r2 st2. upload w2 file2 st' = Some (r2, st2) \<and> succeeded r2 \<longrightarrow>
                  disk st2 = Stored (serialised (documents st2))
                  \<and> ((\<forall>k d. documents st2 k = Some d \<longrightarrow>
                          (\<forall>c \<in> set (chunks d). is_json (embedding c)))
                       \<longrightarrow> disk st2 = Stored (documents st2)))"
proof -
  let ?doc1 = "doc\<lparr>history := history doc @
                 [\<lparr>entry_q = question, entry_a = rawAnswer, entry_createdAt = clock w 0\<rparr>]\<rparr>"
  let ?docs1 = "(documents st)(docId \<mapsto> ?doc1)"
  have at1: "?docs1 docId = Some ?doc1" by simp
  have at2: "serialised ?docs1 docId = Some (stored_document ?doc1)"
    by (simp add: serialised_at)
  have at3: "serialised (documents st) docId = Some (stored_document doc)"
    using assms(4) by (simp add: serialised_at)
  have n1: "?docs1 \<noteq> documents st"
    by (rule differ_at[of "?docs1" docId "?doc1" "documents st" doc, OF at1 assms(4)]) simp
  have n2: "serialised ?docs1 \<noteq> documents st"
    by (rule differ_at[of "serialised ?docs1" docId "stored_document ?doc1" "documents st" doc,
          OF at2 assms(4)])
       (simp add: history_stored_document)
  have n3: "?docs1 \<noteq> serialised (documents st)"
    by (rule differ_at[of "?docs1" docId "?doc1" "serialised (documents st)"
          "stored_document doc", OF at1 at3])
       (simp add: history_stored_document)
  have n4: "serialised ?docs1 \<noteq> serialised (documents st)"
    by (rule differ_at[of "serialised ?docs1" docId "stored_document ?doc1"
          "serialised (documents st)" "stored_document doc", OF at2 at3])
       (simp add: history_stored_document)
  have later: "(\<forall>w2 q2 id2 r2 st2. ask w2 q2 id2 s = (r2, st2) \<and> succeeded r2 \<longrightarrow>
                  disk st2 = Stored (serialised (documents st2))
                  \<and> ((\<forall>k d. documents st2 k = Some d \<longrightarrow>
                          (\<forall>c \<in> set (chunks d). is_json (embedding c)))
                       \<longrightarrow> disk st2 = Stored (documents st2)))
           \<and> (\<forall>w2 file2 r2 st2. upload w2 file2 s = Some (r2, st2) \<and> succeeded r2 \<longrightarrow>
                  disk st2 = Stored (serialised (documents st2))
                  \<and> ((\<forall>k d. documents st2 k = Some d \<longrightarrow>
                          (\<forall>c \<in> set (chunks d). is_json (embedding c)))
                       \<longrightarrow> disk st2 = Stored (documents st2)))" for s
    using ask_success_synced upload_success_synced serialised_json by metis
  from assms(8) show ?thesis
  proof
    assume r: "writeFileSync w = Refused e"
    define st1 where "st1 = st\<lparr>documents := ?docs1\<rparr>"
    have a: "ask w question docId st = (ask_failed e, st1)"
      unfolding ask_reaches_save[OF assms(1-7)] st1_def by (simp add: saveDocuments_def r)
    have f1: "documents st1 docId = Some ?doc1" by (simp add: st1_def)
    have f2: "documents st1 \<noteq> documents st" using n1 by (simp add: st1_def)
    have f3: "disk st1 \<noteq> Stored (documents st1)"
      using assms(9) n1 n3 by (auto simp: st1_def)
    have f4: "disk st1 \<noteq> Stored (serialised (documents st1))"
      using assms(9) n2 n4 by (auto simp: st1_def)
    from a f1 f2 f3 f4 later[of st1] show ?thesis by blast
  next
    assume i: "writeFileSync w = Interrupted e"
    define st1 where "st1 = st\<lparr>documents := ?docs1, disk := Torn\<rparr>"
    have a: "ask w question docId st = (ask_failed e, st1)"
      unfolding ask_reaches_save[OF assms(1-7)] st1_def by (simp add: saveDocuments_def i)
    have f1: "documents st1 docId = Some ?doc1" by (simp add: st1_def)
    have f2: "documents st1 \<noteq> documents st" using n1 by (simp add: st1_def)
    have f3: "disk st1 \<noteq> Stored (documents st1)" by (simp add: st1_def)
    have f4: "disk st1 \<noteq> Stored (serialised (documents st1))" by (simp add: st1_def)
    from a f1 f2 f3 f4 later[of st1] show ?thesis by blast
  qed
qed

theorem ask_persist_failure_witness:
  "ask readonly_world (js ''why?'') (js ''5'') (state_of file_a)
     = (ask_failed (Rejected (js ''EACCES'')), unsaved_state)
   \<and> documents unsaved_state (js ''5'') = Some asked_doc
   \<and> disk unsaved_state \<noteq> Stored (documents unsaved_state)
   \<and> disk unsaved_state \<noteq> Stored (serialised (documents unsaved_state))"
proof -
  have steps: "embedText (stringify readonly_world) (embedContent readonly_world 0) (js ''why?'')
        = Inr (Arr [Number 1])"
    "score_chunks readonly_world (Arr [Number 1]) (chunks (doc_of file_a))
     = Inr [\<lparr>scored_text = js ''AAAABBBB'', score = Num 1\<rparr>]"
    "generate readonly_world p = Inr (js ''yes'')" for p
    by (simp_all add: readonly_world_def demo_world_def embedText_ok doc_of_def)
  have doc: "documents (state_of file_a) (js ''5'') = Some (doc_of file_a)"
    and synced: "disk (state_of file_a) = Stored (documents (state_of file_a))
                 \<or> disk (state_of file_a) = Stored (serialised (documents (state_of file_a)))"
    by (simp_all add: state_of_def)
  have w: "writeFileSync readonly_world = Refused (Rejected (js ''EACCES''))
           \<or> writeFileSync readonly_world = Interrupted (Rejected (js ''EACCES''))"
    by (simp add: readonly_world_def)
  from ask_persist_failure[OF demo_ask_steps(1,2,3) doc steps w synced]
  obtain st' where a: "ask readonly_world (js ''why?'') (js ''5'') (state_of file_a)
       = (ask_failed (Rejected (js ''EACCES'')), st')"
    and b: "documents st' (js ''5'') = Some ((doc_of file_a)\<lparr>history := history (doc_of file_a) @
                 [\<lparr>entry_q = js ''why?'', entry_a = js ''yes'',
                   entry_createdAt = clock readonly_world 0\<rparr>]\<rparr>)"
    and c: "disk st' \<noteq> Stored (documents st')"
    and d: "disk st' \<noteq> Stored (serialised (documents st'))"
    by blast
  have "ask readonly_world (js ''why?'') (js ''5'') (state_of file_a)
       = (ask_failed (Rejected (js ''EACCES'')), unsaved_state)"
    unfolding ask_reaches_save[OF demo_ask_steps(1,2,3) doc steps]
    by (simp add: saveDocuments_def readonly_world_def demo_world_def unsaved_state_def
        asked_doc_def demo_entry_def state_of_def doc_of_def)
  with a have "st' = unsaved_state" by simp
  with a b c d show ?thesis
    by (simp add: asked_doc_def demo_entry_def readonly_world_def demo_world_def doc_of_def)
qed

end
